theory Spec2Isabelle
  imports Complex_Main "HOL-Library.Word" "HOL-Library.Sublist"
begin

section \<open>Streaming chat protocol layer: language model providers\<close>

text \<open>
  A shallow embedding of \<^verbatim>\<open>languageModelProviders.ts\<close> and of the model selection in
  \<^verbatim>\<open>customChatAgent.ts\<close>. A JavaScript string is a \<^typ>\<open>string\<close>: one \<^typ>\<open>char\<close> stands
  for one code unit, and every literal the code matches on (\<^verbatim>\<open>'\n'\<close>, \<^verbatim>\<open>'data: '\<close>,
  \<^verbatim>\<open>'[DONE]'\<close>, \<^verbatim>\<open>'_dot_'\<close>, ...) is ASCII. A \<^verbatim>\<open>Uint8Array\<close> is a list of bytes.

  An async generator is a function from the world before its run to the way it completes
  and the world after it. What the platform provides (the text decoder, \<^verbatim>\<open>JSON.parse\<close>,
  \<^verbatim>\<open>fetch\<close>, the configuration service, \<^verbatim>\<open>process.env\<close>), the consumer of the generator
  and the moment at which the cancellation token fires are parameters of the model,
  collected in an environment.
\<close>

subsection \<open>Platform values\<close>

type_synonym byte = "8 word"

text \<open>A thrown value: the code only ever reads \<^verbatim>\<open>error.name\<close> and \<^verbatim>\<open>error.message\<close>.\<close>

record js_error =
  err_name :: string
  err_message :: string

text \<open>\<^verbatim>\<open>new Error(msg)\<close>\<close>

definition Error :: "string \<Rightarrow> js_error" where
  "Error msg = \<lparr>err_name = ''Error'', err_message = msg\<rparr>"

text \<open>
  How a block of statements completes: it falls through, it throws, or the generator is
  left by \<^verbatim>\<open>return\<close> (the \<^verbatim>\<open>return\<close> statement of the \<^verbatim>\<open>catch\<close> block, or the consumer
  calling \<^verbatim>\<open>return()\<close> on the suspended generator, as \<^verbatim>\<open>for await\<close> does when it is left
  early). A block does not complete when it awaits a promise that never settles: the
  generator stays suspended there.
\<close>

datatype completion = Normal | Throw js_error | Return | Suspended

subsection \<open>String operations of the platform\<close>

text \<open>\<^verbatim>\<open>s.split(sep)\<close> for a one-character separator: never the empty array.\<close>

fun js_split :: "char \<Rightarrow> string \<Rightarrow> string list" where
  "js_split sep [] = [[]]"
| "js_split sep (c # cs) =
     (if c = sep then [] # js_split sep cs
      else (case js_split sep cs of
              [] \<Rightarrow> [[c]]
            | x # xs \<Rightarrow> (c # x) # xs))"

text \<open>\<^verbatim>\<open>a.pop()\<close>: the removed last element (\<^verbatim>\<open>undefined\<close> on an empty array) and the
  array that is left.\<close>

definition js_pop :: "'a list \<Rightarrow> 'a option \<times> 'a list" where
  "js_pop xs = (if xs = [] then (None, []) else (Some (last xs), butlast xs))"

text \<open>\<^verbatim>\<open>x || ''\<close> for \<^verbatim>\<open>x\<close> a string or \<^verbatim>\<open>undefined\<close>: the empty string is falsy.\<close>

definition or_empty :: "string option \<Rightarrow> string" where
  "or_empty x = (case x of None \<Rightarrow> [] | Some s \<Rightarrow> (if s = [] then [] else s))"

definition newline :: char where
  "newline = CHR 0x0A"

text \<open>\<^verbatim>\<open>s.startsWith(p)\<close> is \<^const>\<open>prefix\<close>; \<^verbatim>\<open>s.slice(n)\<close> is \<^const>\<open>drop\<close>.\<close>

subsection \<open>The streaming text decoder\<close>

text \<open>
  \<^verbatim>\<open>TextDecoder.decode(value, { stream: true })\<close> belongs to the platform. It consumes the
  bytes of a chunk one after the other, keeps the bytes of an unfinished character in its
  own state, and returns the code units that are complete. It is taken as a parameter: a
  transition function from a decoder state and a byte to the emitted text and the next
  state.
\<close>

type_synonym 'd text_decoder = "'d \<Rightarrow> byte \<Rightarrow> string \<times> 'd"

fun decode :: "'d text_decoder \<Rightarrow> 'd \<Rightarrow> byte list \<Rightarrow> string \<times> 'd" where
  "decode step d [] = ([], d)"
| "decode step d (b # bs) =
     (case step d b of (t, d') \<Rightarrow>
        (case decode step d' bs of (ts, d'') \<Rightarrow> (t @ ts, d'')))"

text \<open>A decoder for ASCII input, where each byte is one character.\<close>

definition ascii_step :: "unit text_decoder" where
  "ascii_step d b = ([char_of (unat b)], d)"

subsection \<open>The frame decoding loop\<close>

text \<open>\<^verbatim>\<open>for (const line of lines) { ... }\<close> with the loop body as a state transformer;
  the loop is left as soon as the body does not complete normally.\<close>

fun for_of :: "('a \<Rightarrow> 's \<Rightarrow> completion \<times> 's) \<Rightarrow> 'a list \<Rightarrow> 's \<Rightarrow> completion \<times> 's" where
  "for_of body [] s = (Normal, s)"
| "for_of body (x # xs) s =
     (case body x s of
        (Normal, s') \<Rightarrow> for_of body xs s'
      | (c, s') \<Rightarrow> (c, s'))"

text \<open>
  The response body as the reader delivers it: the chunks of the successive
  \<^verbatim>\<open>reader.read()\<close> calls, and how the stream ends: \<^verbatim>\<open>done\<close> (\<open>None\<close>) or a rejected
  read (\<open>Some e\<close>).

  \<^verbatim>\<open>
  let buffer = '';
  while (true) {
      const { done, value } = await reader.read();
      if (done) { break; }
      buffer += decoder.decode(value, { stream: true });
      const lines = buffer.split('\n');
      buffer = lines.pop() || '';
      for (const line of lines) { ... }
  }
  \<close>
\<close>

fun read_loop ::
  "'d text_decoder \<Rightarrow> (string \<Rightarrow> 's \<Rightarrow> completion \<times> 's) \<Rightarrow> js_error option \<Rightarrow>
   byte list list \<Rightarrow> string \<Rightarrow> 'd \<Rightarrow> 's \<Rightarrow> completion \<times> 's" where
  "read_loop step body ending [] buffer d s =
     (case ending of None \<Rightarrow> (Normal, s) | Some e \<Rightarrow> (Throw e, s))"
| "read_loop step body ending (val # rest) buffer d s =
     (case decode step d val of (text, d') \<Rightarrow>
        (case js_pop (js_split newline (buffer @ text)) of (popped, lines) \<Rightarrow>
           (case for_of body lines s of
              (Normal, s') \<Rightarrow> read_loop step body ending rest (or_empty popped) d' s'
            | (c, s') \<Rightarrow> (c, s'))))"

text \<open>The frame of a line in the SSE dialect: the text after \<^verbatim>\<open>'data: '\<close>.\<close>

definition sse_frame :: "string \<Rightarrow> string option" where
  "sse_frame line = (if prefix ''data: '' line then Some (drop 6 line) else None)"

text \<open>A loop body that only records the frames it is given, in order.\<close>

definition collect_frame :: "string \<Rightarrow> string list \<Rightarrow> completion \<times> string list" where
  "collect_frame line fs =
     (case sse_frame line of None \<Rightarrow> (Normal, fs) | Some f \<Rightarrow> (Normal, fs @ [f]))"

definition ascii_bytes :: "string \<Rightarrow> byte list" where
  "ascii_bytes s = map of_char s"

subsection \<open>JSON values, as \<^verbatim>\<open>JSON.parse\<close> returns them\<close>

text \<open>
  An object keeps its members in the order of the document. A finite number is a rational
  (the overflow of a literal to an infinity is left out: it is truthy like every other
  number that is not zero).
\<close>

datatype json =
    JNull
  | JBool bool
  | JNum rat
  | JStr string
  | JArr "json list"
  | JObj "(string \<times> json) list"

text \<open>The value of an expression is a JSON value or \<^verbatim>\<open>undefined\<close> (\<open>None\<close>).\<close>

type_synonym js_value = "json option"

text \<open>\<^verbatim>\<open>if (v)\<close>: \<^verbatim>\<open>undefined\<close>, \<^verbatim>\<open>null\<close>, \<^verbatim>\<open>false\<close>, \<^verbatim>\<open>0\<close> and \<^verbatim>\<open>''\<close> are falsy; objects and
  arrays are truthy, the empty ones too.\<close>

fun truthy :: "js_value \<Rightarrow> bool" where
  "truthy None = False"
| "truthy (Some JNull) = False"
| "truthy (Some (JBool b)) = b"
| "truthy (Some (JNum n)) = (n \<noteq> 0)"
| "truthy (Some (JStr s)) = (s \<noteq> [])"
| "truthy (Some (JArr xs)) = True"
| "truthy (Some (JObj kvs)) = True"

text \<open>
  \<^verbatim>\<open>o.k\<close> for a value \<^verbatim>\<open>o\<close> that is neither \<^verbatim>\<open>null\<close> nor \<^verbatim>\<open>undefined\<close>, and for the names
  the code reads (\<^verbatim>\<open>choices\<close>, \<^verbatim>\<open>delta\<close>, \<^verbatim>\<open>content\<close>, \<^verbatim>\<open>type\<close>, \<^verbatim>\<open>text\<close>, \<^verbatim>\<open>message\<close>): none
  of them is a member of a built-in prototype, so only an object's own members answer.
  Of a repeated member \<^verbatim>\<open>JSON.parse\<close> keeps the last.
\<close>

fun get_prop :: "json \<Rightarrow> string \<Rightarrow> js_value" where
  "get_prop (JObj kvs) k = map_of (rev kvs) k"
| "get_prop v k = None"

text \<open>\<^verbatim>\<open>o[0]\<close> for such a value: the first element of an array, the first character of a
  string, the member \<^verbatim>\<open>"0"\<close> of an object.\<close>

fun get_index0 :: "json \<Rightarrow> js_value" where
  "get_index0 (JArr xs) = (case xs of [] \<Rightarrow> None | x # _ \<Rightarrow> Some x)"
| "get_index0 (JStr s) = (case s of [] \<Rightarrow> None | c # _ \<Rightarrow> Some (JStr [c]))"
| "get_index0 (JObj kvs) = map_of (rev kvs) ''0''"
| "get_index0 v = None"

text \<open>\<^verbatim>\<open>v?.k\<close> and \<^verbatim>\<open>v?.[0]\<close>: \<^verbatim>\<open>undefined\<close> when \<^verbatim>\<open>v\<close> is \<^verbatim>\<open>null\<close> or \<^verbatim>\<open>undefined\<close>.\<close>

definition opt_chain :: "js_value \<Rightarrow> (json \<Rightarrow> js_value) \<Rightarrow> js_value" where
  "opt_chain v f = (case v of None \<Rightarrow> None | Some JNull \<Rightarrow> None | Some x \<Rightarrow> f x)"

definition TypeError :: js_error where
  "TypeError = \<lparr>err_name = ''TypeError'', err_message = ''Cannot read properties of null''\<rparr>"

text \<open>\<^verbatim>\<open>parsed.k\<close> on the result of \<^verbatim>\<open>JSON.parse\<close>: reading a member of \<^verbatim>\<open>null\<close> throws.\<close>

definition member :: "json \<Rightarrow> string \<Rightarrow> js_error + js_value" where
  "member v k = (case v of JNull \<Rightarrow> Inl TypeError | _ \<Rightarrow> Inr (get_prop v k))"

subsection \<open>The world a stream runs in\<close>

text \<open>\<^verbatim>\<open>{ type: 'text', value: content }\<close>: the value is whatever truthy JSON value the
  response carried.\<close>

record text_part =
  part_type :: string
  part_value :: json

record OpenAIMessage =
  wire_role :: string
  wire_content :: string

text \<open>The JSON document of a request, before \<^verbatim>\<open>JSON.stringify\<close>; \<^verbatim>\<open>max_tokens\<close> and
  \<^verbatim>\<open>system\<close> are absent unless set.\<close>

record request_body =
  req_model :: string
  req_messages :: "OpenAIMessage list"
  req_max_tokens :: "nat option"
  req_stream :: bool
  req_system :: "string option"

record http_request =
  url :: string
  http_method :: string
  headers :: "(string \<times> string) list"
  payload :: request_body

text \<open>\<^verbatim>\<open>response.body\<close> read to its end: the chunks of the successive reads, then \<^verbatim>\<open>done\<close>
  (\<open>None\<close>) or a read that rejects (\<open>Some e\<close>). A body is finite here: a response
  that never ends has no run to its end to speak of.\<close>

record body_stream =
  chunks :: "byte list list"
  ending :: "js_error option"

record http_response =
  ok :: bool
  statusText :: string
  body :: "body_stream option"

text \<open>What becomes of the promise of \<^verbatim>\<open>fetch\<close>: it rejects; it resolves with a response
  (the response is then there, and an abort is seen by the reads of its body only); or the
  network does not answer, and the promise settles only when the signal given to
  \<^verbatim>\<open>fetch\<close> is aborted.\<close>

datatype fetch_result = Rejects js_error | Resolves http_response | Pending

text \<open>
  What surrounds the providers: the platform's text decoder and \<^verbatim>\<open>JSON.parse\<close>
  (\<open>None\<close> when it throws), the network behind \<^verbatim>\<open>fetch\<close>, the consumer of the generator
  (given the parts it has received, does it ask for the next one, or does it call
  \<^verbatim>\<open>return()\<close>), the configuration service and \<^verbatim>\<open>process.env\<close> (\<open>None\<close> where
  \<^verbatim>\<open>process\<close> is undefined), and the holder of the cancellation token.

  A generator runs on its own between two suspensions: the token can fire only while the
  generator is suspended, at an \<^verbatim>\<open>await\<close> or at a \<^verbatim>\<open>yield\<close>. Two moments between the same
  two parts handed to the consumer differ only in the chunks without a part that have
  been read in between, which no run shows. The moment is therefore given by the number of
  parts that the consumer holds:
  \<open>token_fires = Some m\<close> is a token that fires once the consumer holds \<open>m\<close> parts (while
  the generator is suspended at the \<^verbatim>\<open>yield\<close> of the \<open>m\<close>-th part; when the consumer holds
  them from the start, while the generator awaits \<^verbatim>\<open>fetch\<close> or its first read), \<open>None\<close> a
  token that never fires.
\<close>

record 'd env =
  decoder_step :: "'d text_decoder"
  decoder_init :: 'd
  JSON_parse :: "string \<Rightarrow> json option"
  fetch :: "http_request \<Rightarrow> fetch_result"
  wants_more :: "text_part list \<Rightarrow> bool"
  getValue :: "string \<Rightarrow> string option"
  process_env :: "(string \<Rightarrow> string option) option"
  token_fires :: "nat option"

text \<open>The effects of a stream: the parts yielded to the consumer, the listeners
  subscribed to the cancellation token, the requests handed to \<^verbatim>\<open>fetch\<close>. Every listener
  of the providers is \<^verbatim>\<open>() => { abortController.abort(); }\<close>: it is named by the abort
  controller it aborts, and an abort controller by a number.\<close>

record world =
  yielded :: "text_part list"
  listeners :: "nat list"
  sent :: "http_request list"

type_synonym block = "world \<Rightarrow> completion \<times> world"

text \<open>\<^verbatim>\<open>yield part\<close>: the consumer receives the part; the generator goes on when the consumer
  asks for more, and is left by \<^verbatim>\<open>return\<close> when the consumer gives the sequence up.\<close>

definition yield_part :: "'d env \<Rightarrow> text_part \<Rightarrow> block" where
  "yield_part env p w =
     (let w' = w\<lparr>yielded := yielded w @ [p]\<rparr>
      in (if wants_more env (yielded w') then Normal else Return, w'))"

text \<open>\<^verbatim>\<open>new AbortController()\<close>: a controller that no listener aborts yet.\<close>

definition new_controller :: "world \<Rightarrow> nat" where
  "new_controller w = Suc (fold max (listeners w) 0)"

text \<open>\<^verbatim>\<open>token.onCancellationRequested(() => { abortController.abort(); })\<close> and
  \<^verbatim>\<open>disposable.dispose()\<close>.\<close>

definition onCancellationRequested :: "nat \<Rightarrow> world \<Rightarrow> world" where
  "onCancellationRequested abortController w = w\<lparr>listeners := abortController # listeners w\<rparr>"

definition dispose :: "nat \<Rightarrow> world \<Rightarrow> world" where
  "dispose abortController w = w\<lparr>listeners := remove1 abortController (listeners w)\<rparr>"

text \<open>
  Modelled from the spec: the cancellation token (\<^verbatim>\<open>CancellationToken\<close>, declared in
  \<^verbatim>\<open>base/common/cancellation.ts\<close>) is not among the sources, and the abort controller
  belongs to the platform. Following the spec, the token is an external signal that is
  bound to the transport's abort mechanism: when it fires it calls the listeners that are
  subscribed, and the listener of the providers aborts its controller. The token has fired
  once the consumer holds the number of parts at which it fires; the signal of a controller
  is aborted when the token has fired with the listener of the controller subscribed.
\<close>

definition fired :: "'d env \<Rightarrow> world \<Rightarrow> bool" where
  "fired env w = (case token_fires env of None \<Rightarrow> False | Some m \<Rightarrow> m \<le> length (yielded w))"

definition aborted :: "'d env \<Rightarrow> nat \<Rightarrow> world \<Rightarrow> bool" where
  "aborted env abortController w = (fired env w \<and> abortController \<in> set (listeners w))"

text \<open>The error with which the platform rejects what an aborted signal interrupts.\<close>

definition AbortError :: js_error where
  "AbortError = \<lparr>err_name = ''AbortError'', err_message = ''The operation was aborted.''\<rparr>"

text \<open>\<^verbatim>\<open>try { body } finally { fin }\<close> and \<^verbatim>\<open>try { body } catch (error) { handler }\<close>. A
  body that stays suspended does not reach its \<^verbatim>\<open>finally\<close> block.\<close>

definition try_finally :: "block \<Rightarrow> (world \<Rightarrow> world) \<Rightarrow> block" where
  "try_finally blk fin w =
     (case blk w of
        (Suspended, w') \<Rightarrow> (Suspended, w')
      | (c, w') \<Rightarrow> (c, fin w'))"

definition try_catch :: "block \<Rightarrow> (js_error \<Rightarrow> block) \<Rightarrow> block" where
  "try_catch blk handler w =
     (case blk w of
        (Throw e, w') \<Rightarrow> handler e w'
      | (c, w') \<Rightarrow> (c, w'))"

text \<open>\<^verbatim>\<open>await fetch(url, { ..., signal: abortController.signal })\<close>: the request goes out
  and the network answers; where it does not, the promise rejects once the signal is
  aborted and stays pending otherwise.\<close>

definition await_fetch ::
  "'d env \<Rightarrow> nat \<Rightarrow> http_request \<Rightarrow> world \<Rightarrow> fetch_result \<times> world" where
  "await_fetch env abortController rq w =
     (let w' = w\<lparr>sent := sent w @ [rq]\<rparr>
      in (case fetch env rq of
            Pending \<Rightarrow> if aborted env abortController w' then Rejects AbortError else Pending
          | answer \<Rightarrow> answer,
          w'))"

text \<open>The \<^verbatim>\<open>catch\<close> block of the three generators:
  \<^verbatim>\<open>if (error.name === 'AbortError') { return; } throw error;\<close>\<close>

definition on_error :: "js_error \<Rightarrow> block" where
  "on_error error w = (if err_name error = ''AbortError'' then (Return, w) else (Throw error, w))"

subsection \<open>Delta extraction: the body of the loop over the lines\<close>

text \<open>
  OpenAI:
  \<^verbatim>\<open>
  if (line.startsWith('data: ')) {
      const data = line.slice(6);
      if (data === '[DONE]') { continue; }
      try {
          const parsed = JSON.parse(data);
          const content = parsed.choices?.[0]?.delta?.content;
          if (content) { yield { type: 'text', value: content }; }
      } catch (e) { }
  }
  \<close>
  The \<^verbatim>\<open>catch\<close> swallows the \<^verbatim>\<open>SyntaxError\<close> of \<^verbatim>\<open>JSON.parse\<close> and the \<^verbatim>\<open>TypeError\<close> of
  reading a member of \<^verbatim>\<open>null\<close>.
\<close>

definition openai_content :: "json \<Rightarrow> js_error + js_value" where
  "openai_content parsed =
     (case member parsed ''choices'' of
        Inl e \<Rightarrow> Inl e
      | Inr choices \<Rightarrow>
          Inr (opt_chain (opt_chain (opt_chain choices get_index0)
                 (\<lambda>c. get_prop c ''delta'')) (\<lambda>d. get_prop d ''content'')))"

definition openai_line :: "'d env \<Rightarrow> string \<Rightarrow> block" where
  "openai_line env line w =
     (if prefix ''data: '' line then
        (let data = drop 6 line in
         if data = ''[DONE]'' then (Normal, w)
         else (case JSON_parse env data of
                 None \<Rightarrow> (Normal, w)
               | Some parsed \<Rightarrow>
                   (case openai_content parsed of
                      Inl e \<Rightarrow> (Normal, w)
                    | Inr None \<Rightarrow> (Normal, w)
                    | Inr (Some content) \<Rightarrow>
                        (if truthy (Some content)
                         then yield_part env \<lparr>part_type = ''text'', part_value = content\<rparr> w
                         else (Normal, w)))))
      else (Normal, w))"

text \<open>
  Anthropic:
  \<^verbatim>\<open>
  if (line.startsWith('data: ')) {
      const data = line.slice(6);
      try {
          const parsed = JSON.parse(data);
          if (parsed.type === 'content_block_delta' && parsed.delta?.text) {
              yield { type: 'text', value: parsed.delta.text };
          }
      } catch (e) { }
  }
  \<close>
\<close>

definition anthropic_text :: "json \<Rightarrow> js_error + js_value" where
  "anthropic_text parsed =
     (case member parsed ''type'' of
        Inl e \<Rightarrow> Inl e
      | Inr ty \<Rightarrow>
          (if ty = Some (JStr ''content_block_delta'') then
             (case member parsed ''delta'' of
                Inl e \<Rightarrow> Inl e
              | Inr delta \<Rightarrow>
                  (let text = opt_chain delta (\<lambda>d. get_prop d ''text'')
                   in if truthy text then Inr text else Inr None))
           else Inr None))"

definition anthropic_line :: "'d env \<Rightarrow> string \<Rightarrow> block" where
  "anthropic_line env line w =
     (if prefix ''data: '' line then
        (let data = drop 6 line in
         case JSON_parse env data of
           None \<Rightarrow> (Normal, w)
         | Some parsed \<Rightarrow>
             (case anthropic_text parsed of
                Inl e \<Rightarrow> (Normal, w)
              | Inr None \<Rightarrow> (Normal, w)
              | Inr (Some text) \<Rightarrow>
                  yield_part env \<lparr>part_type = ''text'', part_value = text\<rparr> w))
      else (Normal, w))"

text \<open>
  Ollama:
  \<^verbatim>\<open>
  if (line.trim() === '') { continue; }
  try {
      const parsed = JSON.parse(line);
      if (parsed.message?.content) { yield { type: 'text', value: parsed.message.content }; }
  } catch (e) { }
  \<close>
  The white space of \<^verbatim>\<open>trim\<close> that a \<^typ>\<open>char\<close> can hold: tab, line feed, vertical tab, form
  feed, carriage return, space and no-break space.
\<close>

definition is_space :: "char \<Rightarrow> bool" where
  "is_space c = (c \<in> set [CHR 0x09, CHR 0x0A, CHR 0x0B, CHR 0x0C, CHR 0x0D, CHR 0x20, CHR 0xA0])"

definition js_trim :: "string \<Rightarrow> string" where
  "js_trim s = rev (dropWhile is_space (rev (dropWhile is_space s)))"

definition ollama_content :: "json \<Rightarrow> js_error + js_value" where
  "ollama_content parsed =
     (case member parsed ''message'' of
        Inl e \<Rightarrow> Inl e
      | Inr message \<Rightarrow> Inr (opt_chain message (\<lambda>m. get_prop m ''content'')))"

definition ollama_line :: "'d env \<Rightarrow> string \<Rightarrow> block" where
  "ollama_line env line w =
     (if js_trim line = [] then (Normal, w)
      else (case JSON_parse env line of
              None \<Rightarrow> (Normal, w)
            | Some parsed \<Rightarrow>
                (case ollama_content parsed of
                   Inl e \<Rightarrow> (Normal, w)
                 | Inr None \<Rightarrow> (Normal, w)
                 | Inr (Some content) \<Rightarrow>
                     (if truthy (Some content)
                      then yield_part env \<lparr>part_type = ''text'', part_value = content\<rparr> w
                      else (Normal, w)))))"

subsection \<open>The three streaming generators\<close>

text \<open>
  The reads of a body whose signal may be aborted. The platform answers the reads with
  the chunks of the body, in order, as long as the signal is not aborted; the first read
  that is pending or called with the signal aborted rejects with an \<^verbatim>\<open>AbortError\<close>, whatever
  the body still holds. The signal is looked at when a read is called, that is, once the
  lines of the chunks read before have been run through the body of the loop: the reads
  answered with a chunk are the first \<open>j\<close>, for the least \<open>j\<close> such that the signal is
  aborted after the first \<open>j\<close> chunks.
\<close>

definition answered ::
  "'d env \<Rightarrow> nat \<Rightarrow> (string \<Rightarrow> block) \<Rightarrow> body_stream \<Rightarrow> world \<Rightarrow> body_stream" where
  "answered env abortController line_body reader w =
     (case find (\<lambda>j. aborted env abortController
                    (snd (read_loop (decoder_step env) line_body None (take j (chunks reader))
                            [] (decoder_init env) w)))
             [0..<Suc (length (chunks reader))] of
        None \<Rightarrow> reader
      | Some j \<Rightarrow> \<lparr>chunks = take j (chunks reader), ending = Some AbortError\<rparr>)"

text \<open>
  The statements after \<^verbatim>\<open>await fetch\<close>, the same in the three generators but for the
  vendor's name in the message and the body of the loop over the lines:
  \<^verbatim>\<open>
  if (!response.ok) { throw new Error(`OpenAI API error: ${response.statusText}`); }
  const reader = response.body?.getReader();
  const decoder = new TextDecoder();
  if (!reader) { throw new Error('No response body'); }
  let buffer = '';
  while (true) { ... }
  \<close>
\<close>

definition read_response ::
  "'d env \<Rightarrow> string \<Rightarrow> (string \<Rightarrow> block) \<Rightarrow> nat \<Rightarrow> fetch_result \<Rightarrow> block" where
  "read_response env vendor line_body abortController answer w =
     (case answer of
        Rejects e \<Rightarrow> (Throw e, w)
      | Pending \<Rightarrow> (Suspended, w)
      | Resolves response \<Rightarrow>
          (if \<not> ok response
           then (Throw (Error (vendor @ '' API error: '' @ statusText response)), w)
           else (case body response of
                   None \<Rightarrow> (Throw (Error ''No response body''), w)
                 | Some reader \<Rightarrow>
                     (let reads = answered env abortController line_body reader w
                      in read_loop (decoder_step env) line_body (ending reads) (chunks reads)
                           [] (decoder_init env) w))))"

text \<open>
  \<^verbatim>\<open>
  try {
      const abortController = new AbortController();
      const disposable = token.onCancellationRequested(() => { abortController.abort(); });
      try {
          const response = await fetch(...);
          ...
      } finally { disposable.dispose(); }
  } catch (error: any) {
      if (error.name === 'AbortError') { return; }
      throw error;
  }
  \<close>
  The token that fires calls the listener, which aborts the controller; the pending
  \<^verbatim>\<open>fetch\<close>, or the pending or next \<^verbatim>\<open>reader.read()\<close>, then rejects with an error named
  \<^verbatim>\<open>AbortError\<close>.
\<close>

definition generator :: "'d env \<Rightarrow> string \<Rightarrow> (string \<Rightarrow> block) \<Rightarrow> http_request \<Rightarrow> block" where
  "generator env vendor line_body rq =
     try_catch
       (\<lambda>w. let abortController = new_controller w
            in try_finally
                 (\<lambda>w. case await_fetch env abortController rq w of
                         (answer, w') \<Rightarrow>
                           read_response env vendor line_body abortController answer w')
                 (dispose abortController)
                 (onCancellationRequested abortController w))
       on_error"

definition openai_request :: "string \<Rightarrow> string \<Rightarrow> string \<Rightarrow> OpenAIMessage list \<Rightarrow> http_request" where
  "openai_request baseURL apiKey model messages =
     \<lparr>url = baseURL @ ''/chat/completions'',
      http_method = ''POST'',
      headers = [(''Content-Type'', ''application/json''),
                 (''Authorization'', ''Bearer '' @ apiKey)],
      payload = \<lparr>req_model = model, req_messages = messages, req_max_tokens = None,
                 req_stream = True, req_system = None\<rparr>\<rparr>"

definition streamOpenAIResponse ::
  "'d env \<Rightarrow> string \<Rightarrow> string \<Rightarrow> string \<Rightarrow> OpenAIMessage list \<Rightarrow> block" where
  "streamOpenAIResponse env baseURL apiKey model messages =
     generator env ''OpenAI'' (openai_line env) (openai_request baseURL apiKey model messages)"

subsection \<open>Chat messages and their conversion\<close>

datatype ChatMessageRole = System | User | Assistant

text \<open>A content part: a text part with its value, or a part of another type.\<close>

datatype content_part = TextPart string | OtherPart

record IChatMessage =
  role :: ChatMessageRole
  content :: "content_part list"

text \<open>\<^verbatim>\<open>msg.content.map(part => part.type === 'text' ? part.value : '').join('')\<close>\<close>

definition content_text :: "content_part list \<Rightarrow> string" where
  "content_text parts = concat (map (\<lambda>part. case part of TextPart v \<Rightarrow> v | OtherPart \<Rightarrow> []) parts)"

definition openai_message :: "IChatMessage \<Rightarrow> OpenAIMessage" where
  "openai_message msg =
     \<lparr>wire_role = (if role msg = System then ''system''
                   else if role msg = User then ''user'' else ''assistant''),
      wire_content = content_text (content msg)\<rparr>"

definition anthropic_message :: "IChatMessage \<Rightarrow> OpenAIMessage" where
  "anthropic_message msg =
     \<lparr>wire_role = (if role msg = User then ''user'' else ''assistant''),
      wire_content = content_text (content msg)\<rparr>"

text \<open>
  Anthropic: the body of the request is assembled in the generator.
  \<^verbatim>\<open>
  const body: any = { model, messages, max_tokens: 8192, stream: true };
  if (systemMessage) {
      body.system = systemMessage.content.map(p => p.type === 'text' ? p.value : '').join('');
  }
  \<close>
\<close>

definition anthropic_request ::
  "string \<Rightarrow> string \<Rightarrow> string \<Rightarrow> OpenAIMessage list \<Rightarrow> IChatMessage option \<Rightarrow> http_request" where
  "anthropic_request baseURL apiKey model messages systemMessage =
     \<lparr>url = baseURL @ ''/messages'',
      http_method = ''POST'',
      headers = [(''Content-Type'', ''application/json''),
                 (''x-api-key'', apiKey),
                 (''anthropic-version'', ''2023-06-01'')],
      payload = \<lparr>req_model = model, req_messages = messages, req_max_tokens = Some 8192,
                 req_stream = True,
                 req_system = (case systemMessage of
                                 None \<Rightarrow> None
                               | Some m \<Rightarrow> Some (content_text (content m)))\<rparr>\<rparr>"

definition streamAnthropicResponse ::
  "'d env \<Rightarrow> string \<Rightarrow> string \<Rightarrow> string \<Rightarrow> OpenAIMessage list \<Rightarrow> IChatMessage option \<Rightarrow> block" where
  "streamAnthropicResponse env baseURL apiKey model messages systemMessage =
     generator env ''Anthropic'' (anthropic_line env)
       (anthropic_request baseURL apiKey model messages systemMessage)"

definition ollama_request :: "string \<Rightarrow> string \<Rightarrow> OpenAIMessage list \<Rightarrow> http_request" where
  "ollama_request baseURL model messages =
     \<lparr>url = baseURL @ ''/api/chat'',
      http_method = ''POST'',
      headers = [(''Content-Type'', ''application/json'')],
      payload = \<lparr>req_model = model, req_messages = messages, req_max_tokens = None,
                 req_stream = True, req_system = None\<rparr>\<rparr>"

definition streamOllamaResponse ::
  "'d env \<Rightarrow> string \<Rightarrow> string \<Rightarrow> OpenAIMessage list \<Rightarrow> block" where
  "streamOllamaResponse env baseURL model messages =
     generator env ''Ollama'' (ollama_line env) (ollama_request baseURL model messages)"

subsection \<open>Replacing in strings\<close>

text \<open>\<^verbatim>\<open>s.replace(pat, rep)\<close> for a string \<^verbatim>\<open>pat\<close>: the first occurrence only. (The
  replacements of the code hold no \<^verbatim>\<open>$\<close>.)\<close>

fun replace_first :: "string \<Rightarrow> string \<Rightarrow> string \<Rightarrow> string" where
  "replace_first pat rep [] = (if pat = [] then rep else [])"
| "replace_first pat rep (c # cs) =
     (if prefix pat (c # cs) then rep @ drop (length pat) (c # cs)
      else c # replace_first pat rep cs)"

text \<open>\<^verbatim>\<open>s.replace(/pat/g, rep)\<close> for a regular expression that is a literal, non-empty
  text: every occurrence, found from left to right, the search going on behind each
  match.\<close>

fun replace_all :: "string \<Rightarrow> string \<Rightarrow> string \<Rightarrow> string" where
  "replace_all pat rep [] = []"
| "replace_all pat rep (c # cs) =
     (if prefix pat (c # cs) then rep @ replace_all pat rep (drop (length pat - 1) cs)
      else c # replace_all pat rep cs)"

subsection \<open>\<^verbatim>\<open>sendChatRequest\<close>\<close>

text \<open>\<^verbatim>\<open>a || b\<close> on strings that may be \<^verbatim>\<open>undefined\<close>, \<^verbatim>\<open>!a\<close>, and a string in a template
  literal.\<close>

definition js_or :: "string option \<Rightarrow> string option \<Rightarrow> string option" where
  "js_or a b = (case a of None \<Rightarrow> b | Some s \<Rightarrow> (if s = [] then b else a))"

definition falsy :: "string option \<Rightarrow> bool" where
  "falsy a = (case a of None \<Rightarrow> True | Some s \<Rightarrow> s = [])"

definition template :: "string option \<Rightarrow> string" where
  "template a = (case a of None \<Rightarrow> ''undefined'' | Some s \<Rightarrow> s)"

text \<open>The literal that ends the chain of \<^verbatim>\<open>||\<close> in the OpenAI provider. Its characters
  after the prefix are not repeated here; nothing below depends on them.\<close>

definition hardcodedKey :: string where
  "hardcodedKey = ''sk-proj-...''"

text \<open>\<^verbatim>\<open>typeof process !== 'undefined' && process.env?.['OPENAI_API_KEY']\<close>\<close>

definition env_var :: "'d env \<Rightarrow> string \<Rightarrow> string option" where
  "env_var env k = (case process_env env of None \<Rightarrow> None | Some vars \<Rightarrow> vars k)"

text \<open>
  \<^verbatim>\<open>
  const apiKey = (typeof process !== 'undefined' && process.env?.['OPENAI_API_KEY']) ||
      this.configurationService.getValue<string>('languageModels.openai.apiKey') ||
      'sk-proj-...';
  const baseURL = this.configurationService.getValue<string>('languageModels.openai.baseURL')
      || 'https://api.openai.com/v1';
  if (!apiKey) { throw new Error('OpenAI API key not configured. ...'); }
  const openaiMessages = messages.map(...);
  const model = modelId.replace('openai-', '');
  const stream = this.streamOpenAIResponse(baseURL, apiKey, model, openaiMessages, token);
  return { stream, result: Promise.resolve({}) };
  \<close>
  The result is the error the call rejects with, or the generator it returns.
\<close>

definition OpenAI_sendChatRequest :: "'d env \<Rightarrow> string \<Rightarrow> IChatMessage list \<Rightarrow> js_error + block" where
  "OpenAI_sendChatRequest env modelId messages =
     (let apiKey = js_or (js_or (env_var env ''OPENAI_API_KEY'')
                                (getValue env ''languageModels.openai.apiKey''))
                         (Some hardcodedKey);
          baseURL = js_or (getValue env ''languageModels.openai.baseURL'')
                          (Some ''https://api.openai.com/v1'')
      in if falsy apiKey
         then Inl (Error (''OpenAI API key not configured. Please set OPENAI_API_KEY '' @
                          ''environment variable or languageModels.openai.apiKey in settings.''))
         else (let openaiMessages = map openai_message messages;
                   model = replace_first ''openai-'' [] modelId
               in Inr (streamOpenAIResponse env (template baseURL) (template apiKey) model
                         openaiMessages)))"

text \<open>
  \<^verbatim>\<open>
  const apiKey = this.configurationService.getValue<string>('languageModels.anthropic.apiKey');
  const baseURL = this.configurationService.getValue<string>('languageModels.anthropic.baseURL')
      || 'https://api.anthropic.com/v1';
  if (!apiKey) { throw new Error('Anthropic API key not configured. ...'); }
  const anthropicMessages = messages
      .filter(msg => msg.role !== ChatMessageRole.System)
      .map(msg => ({ role: msg.role === ChatMessageRole.User ? 'user' : 'assistant',
                     content: ... }));
  const systemMessage = messages.find(msg => msg.role === ChatMessageRole.System);
  const model = modelId.replace('anthropic-', '');
  const stream = this.streamAnthropicResponse(baseURL, apiKey, model, anthropicMessages,
      systemMessage, token);
  \<close>
\<close>

definition Anthropic_sendChatRequest :: "'d env \<Rightarrow> string \<Rightarrow> IChatMessage list \<Rightarrow> js_error + block" where
  "Anthropic_sendChatRequest env modelId messages =
     (let apiKey = getValue env ''languageModels.anthropic.apiKey'';
          baseURL = js_or (getValue env ''languageModels.anthropic.baseURL'')
                          (Some ''https://api.anthropic.com/v1'')
      in if falsy apiKey
         then Inl (Error (''Anthropic API key not configured. Please set '' @
                          ''languageModels.anthropic.apiKey in settings.''))
         else (let anthropicMessages =
                     map anthropic_message (filter (\<lambda>msg. role msg \<noteq> System) messages);
                   systemMessage = find (\<lambda>msg. role msg = System) messages;
                   model = replace_first ''anthropic-'' [] modelId
               in Inr (streamAnthropicResponse env (template baseURL) (template apiKey) model
                         anthropicMessages systemMessage)))"

text \<open>
  Ollama: the model name is encoded into the identifier when the models are listed,
  \<^verbatim>\<open>
  const encodedName = modelName.replace(/\./g, '_dot_').replace(/:/g, '_colon_');
  const modelId = `ollama-${encodedName}`;
  \<close>
  and decoded when a request is sent:
  \<^verbatim>\<open>
  const encodedName = modelId.replace('ollama-', '');
  const model = encodedName.replace(/_dot_/g, '.').replace(/_colon_/g, ':');
  \<close>
\<close>

definition ollama_modelId :: "string \<Rightarrow> string" where
  "ollama_modelId modelName =
     (let encodedName = replace_all '':'' ''_colon_'' (replace_all ''.'' ''_dot_'' modelName)
      in ''ollama-'' @ encodedName)"

definition ollama_model :: "string \<Rightarrow> string" where
  "ollama_model modelId =
     (let encodedName = replace_first ''ollama-'' [] modelId
      in replace_all ''_colon_'' '':'' (replace_all ''_dot_'' ''.'' encodedName))"

definition Ollama_sendChatRequest :: "'d env \<Rightarrow> string \<Rightarrow> IChatMessage list \<Rightarrow> js_error + block" where
  "Ollama_sendChatRequest env modelId messages =
     (let baseURL = js_or (getValue env ''languageModels.ollama.baseURL'')
                          (Some ''http://localhost:11434'');
          model = ollama_model modelId;
          ollamaMessages = map openai_message messages
      in Inr (streamOllamaResponse env (template baseURL) model ollamaMessages))"

subsection \<open>Choosing the model of a chat request\<close>

text \<open>Of a model's metadata, the fields the selection reads or reports; an absent
  \<^verbatim>\<open>isDefault\<close> is \<open>False\<close>.\<close>

record ILanguageModelChatMetadata =
  md_name :: string
  md_vendor :: string
  isDefault :: bool
  isUserSelectable :: bool

record ILanguageModelChatMetadataAndIdentifier =
  "identifier" :: string
  metadata :: ILanguageModelChatMetadata

text \<open>
  Modelled from the spec: the language models service (\<^verbatim>\<open>ILanguageModelsService\<close>, declared
  in \<^verbatim>\<open>common/languageModels.ts\<close>) is not among the sources; only its calls in
  \<^verbatim>\<open>customChatAgent.ts\<close> are. Following the spec's Model Directory, it holds the latest
  snapshot of each vendor, the vendors in the order of their registration;
  \<^verbatim>\<open>getLanguageModelIds()\<close> lists the identifiers of all snapshots in that order, and
  \<^verbatim>\<open>lookupLanguageModel(id)\<close> resolves an identifier to the metadata of its descriptor.
\<close>

type_synonym directory = "(string \<times> ILanguageModelChatMetadataAndIdentifier list) list"

definition descriptors :: "directory \<Rightarrow> ILanguageModelChatMetadataAndIdentifier list" where
  "descriptors dir = concat (map snd dir)"

definition getLanguageModelIds :: "directory \<Rightarrow> string list" where
  "getLanguageModelIds dir = map identifier (descriptors dir)"

definition lookupLanguageModel :: "directory \<Rightarrow> string \<Rightarrow> ILanguageModelChatMetadata option" where
  "lookupLanguageModel dir modelId =
     map_option metadata (find (\<lambda>d. identifier d = modelId) (descriptors dir))"

text \<open>
  Modelled from the spec: \<^verbatim>\<open>selectDefault()\<close> in the spec's words. The first descriptor
  with \<^verbatim>\<open>isDefault = true\<close>, the snapshots scanned in registration order; if there is none,
  the first descriptor of the first snapshot that is not empty; \<open>None\<close> (NotFound) if
  every snapshot is empty.
\<close>

definition selectDefault :: "directory \<Rightarrow> ILanguageModelChatMetadataAndIdentifier option" where
  "selectDefault dir =
     (case find (\<lambda>d. isDefault (metadata d)) (descriptors dir) of
        Some d \<Rightarrow> Some d
      | None \<Rightarrow>
          (case dropWhile (\<lambda>(vendor, snapshot). snapshot = []) dir of
             [] \<Rightarrow> None
           | (vendor, snapshot) # _ \<Rightarrow> (case snapshot of [] \<Rightarrow> None | d # _ \<Rightarrow> Some d)))"

text \<open>
  The selection of \<^verbatim>\<open>CustomChatAgentImplementation.invoke\<close>:
  \<^verbatim>\<open>
  const models = this.languageModelsService.getLanguageModelIds();
  if (models.length === 0) { ...
      return { errorDetails: { message: 'No language models available' } };
  }
  let selectedModelId: string | null = null;
  let selectedModel = null;
  for (const modelId of models) {
      const model = this.languageModelsService.lookupLanguageModel(modelId);
      if (model?.isDefault) { selectedModelId = modelId; selectedModel = model; break; }
  }
  if (!selectedModelId && models.length > 0) {
      selectedModelId = models[0];
      selectedModel = this.languageModelsService.lookupLanguageModel(selectedModelId);
  }
  if (!selectedModelId || !selectedModel) { ...
      return { errorDetails: { message: 'No suitable model found' } };
  }
  \<close>
\<close>

fun find_default ::
  "directory \<Rightarrow> string list \<Rightarrow> (string \<times> ILanguageModelChatMetadata) option" where
  "find_default dir [] = None"
| "find_default dir (modelId # rest) =
     (case lookupLanguageModel dir modelId of
        None \<Rightarrow> find_default dir rest
      | Some model \<Rightarrow> (if isDefault model then Some (modelId, model) else find_default dir rest))"

datatype selection = ErrorDetails string | Selected string ILanguageModelChatMetadata

definition select_model :: "directory \<Rightarrow> selection" where
  "select_model dir =
     (let models = getLanguageModelIds dir in
      if length models = 0 then ErrorDetails ''No language models available''
      else
        (let found = find_default dir models;
             selectedModelId = map_option fst found;
             selectedModel = map_option snd found;
             fallback = (falsy selectedModelId \<and> length models > 0);
             selectedModelId' = (if fallback then (case models of [] \<Rightarrow> None | m # _ \<Rightarrow> Some m)
                                 else selectedModelId);
             selectedModel' = (if fallback
                               then (case selectedModelId' of
                                       None \<Rightarrow> None
                                     | Some m \<Rightarrow> lookupLanguageModel dir m)
                               else selectedModel)
         in (case (selectedModelId', selectedModel') of
               (Some i, Some m) \<Rightarrow>
                 (if i = [] then ErrorDetails ''No suitable model found'' else Selected i m)
             | _ \<Rightarrow> ErrorDetails ''No suitable model found'')))"

subsection \<open>Names that the Ollama encoding keeps apart\<close>

text \<open>The three characters that are, or that the encoding turns into, an underscore at
  the edge of a token.\<close>

definition delimiter :: "char \<Rightarrow> bool" where
  "delimiter c = (c = CHR ''_'' \<or> c = CHR ''.'' \<or> c = CHR '':'')"

text \<open>The word occurs in the text with a delimiter right before it and a delimiter right
  after it.\<close>

definition delimited :: "string \<Rightarrow> string \<Rightarrow> bool" where
  "delimited word s =
     (\<exists>a \<in> set ''_.:''. \<exists>b \<in> set ''_.:''. sublist (a # word @ [b]) s)"

text \<open>What the two replacements of the encoding make of one character, and what is left
  of it once \<^verbatim>\<open>_dot_\<close> has been decoded.\<close>

definition token :: "char \<Rightarrow> string" where
  "token c = (if c = CHR ''.'' then ''_dot_'' else if c = CHR '':'' then ''_colon_'' else [c])"

definition colon_token :: "char \<Rightarrow> string" where
  "colon_token c = (if c = CHR '':'' then ''_colon_'' else [c])"

subsection \<open>Values for concrete runs\<close>

text \<open>\<^verbatim>\<open>JSON.parse\<close> on the frame bodies of the examples below; a text that is none of
  these documents is taken as malformed, as \<^verbatim>\<open>not-json\<close> and \<^verbatim>\<open>[DONE]\<close> are.\<close>

definition example_parse :: "string \<Rightarrow> json option" where
  \<open>example_parse s =
     (if s = ''{"choices":[{"delta":{"content":"hi"}}]}'' then
        Some (JObj [(''choices'', JArr [JObj [(''delta'', JObj [(''content'', JStr ''hi'')])]])])
      else if s = ''{"type":"content_block_delta","delta":{"text":"hi"}}'' then
        Some (JObj [(''type'', JStr ''content_block_delta''),
                    (''delta'', JObj [(''text'', JStr ''hi'')])])
      else if s = ''{"type":"content_block_delta","delta":{"text":""}}'' then
        Some (JObj [(''type'', JStr ''content_block_delta''),
                    (''delta'', JObj [(''text'', JStr [])])])
      else if s = ''{"type":"message_stop"}'' then
        Some (JObj [(''type'', JStr ''message_stop'')])
      else None)\<close>

text \<open>An environment with no credential anywhere, a consumer that reads the stream to
  its end, a token that never fires, and a network that answers with the given result.\<close>

definition example_env :: "fetch_result \<Rightarrow> unit env" where
  "example_env answer =
     \<lparr>decoder_step = ascii_step, decoder_init = (), JSON_parse = example_parse,
      fetch = (\<lambda>rq. answer), wants_more = (\<lambda>parts. True),
      getValue = (\<lambda>k. None), process_env = Some (\<lambda>k. None), token_fires = None\<rparr>"

text \<open>A response that is refused (its body would hold a frame), and a response without
  body.\<close>

definition unauthorized :: http_response where
  "unauthorized =
     \<lparr>ok = False, statusText = ''Unauthorized'',
      body = Some \<lparr>chunks = [ascii_bytes (''data: x'' @ [newline])], ending = None\<rparr>\<rparr>"

definition no_body :: http_response where
  "no_body = \<lparr>ok = True, statusText = ''OK'', body = None\<rparr>"

definition world0 :: world where
  "world0 = \<lparr>yielded = [], listeners = [], sent = []\<rparr>"

text \<open>A line of an OpenAI stream that carries the delta \<^verbatim>\<open>hi\<close>, the part it yields, and a
  response of success status whose body delivers the given chunks and ends.\<close>

definition hi_line :: string where
  \<open>hi_line = ''data: {"choices":[{"delta":{"content":"hi"}}]}'' @ [newline]\<close>

definition hi_part :: text_part where
  "hi_part = \<lparr>part_type = ''text'', part_value = JStr ''hi''\<rparr>"

definition streaming :: "byte list list \<Rightarrow> http_response" where
  "streaming cs = \<lparr>ok = True, statusText = ''OK'', body = Some \<lparr>chunks = cs, ending = None\<rparr>\<rparr>"

text \<open>The environment of the examples with a token that fires once the consumer holds
  \<open>m\<close> parts.\<close>

definition cancelling :: "nat \<Rightarrow> fetch_result \<Rightarrow> unit env" where
  "cancelling m answer = (example_env answer)\<lparr>token_fires := Some m\<rparr>"

text \<open>The same surroundings with a token that never fires and a network that answers
  with a response of success status whose body ends, with \<^verbatim>\<open>done\<close>, after the first \<open>i\<close> of
  the chunks \<open>cs\<close>.\<close>

definition first_reads :: "'d env \<Rightarrow> string \<Rightarrow> byte list list \<Rightarrow> nat \<Rightarrow> 'd env" where
  "first_reads env st cs i =
     env\<lparr>token_fires := None,
         fetch := \<lambda>rq. Resolves \<lparr>ok = True, statusText = st,
                          body = Some \<lparr>chunks = take i cs, ending = None\<rparr>\<rparr>\<rparr>"

text \<open>How the read loop ends once the chunks are used up: \<^verbatim>\<open>done\<close> leaves the loop, a
  read that rejects throws.\<close>

definition stream_end :: "js_error option \<Rightarrow> 's \<Rightarrow> completion \<times> 's" where
  "stream_end fin s = (case fin of None \<Rightarrow> (Normal, s) | Some e \<Rightarrow> (Throw e, s))"

section \<open>Properties of the frame decoding loop\<close>

lemma js_split_not_Nil: "js_split sep s \<noteq> []"
  by (induction s) (auto split: list.splits)

lemma js_split_append:
  "js_split sep (x @ y) = butlast (js_split sep x) @ js_split sep (last (js_split sep x) @ y)"
proof (induction x)
  case Nil
  show ?case by simp
next
  case (Cons c x)
  show ?case
  proof (cases "c = sep")
    case True
    with Cons show ?thesis by (simp add: js_split_not_Nil)
  next
    case False
    obtain l ls where sp: "js_split sep x = l # ls"
      using js_split_not_Nil [of sep x] by (cases "js_split sep x") auto
    show ?thesis
    proof (cases ls)
      case Nil
      with False sp Cons show ?thesis by simp
    next
      case (Cons l' ls')
      with False sp Cons.IH show ?thesis
        by (simp add: js_split_not_Nil)
    qed
  qed
qed

lemma last_js_split_no_sep: "sep \<notin> set (last (js_split sep s))"
  by (induction s) (auto simp: js_split_not_Nil split: list.splits)

lemma js_split_no_sep: "sep \<notin> set s \<Longrightarrow> js_split sep s = [s]"
  by (induction s) auto

lemma js_split_lines:
  "\<forall>l \<in> set ls. sep \<notin> set l \<Longrightarrow> sep \<notin> set p \<Longrightarrow>
   js_split sep (concat (map (\<lambda>l. l @ [sep]) ls) @ p) = ls @ [p]"
proof (induction ls)
  case Nil
  then show ?case by (simp add: js_split_no_sep)
next
  case (Cons l ls)
  have "js_split sep (l @ sep # r) = l # js_split sep r" if "sep \<notin> set l" for r
    using that by (induction l) auto
  with Cons show ?case by simp
qed

lemma or_empty_Some: "or_empty (Some s) = s"
  by (simp add: or_empty_def)

lemma for_of_append:
  "for_of h (xs @ ys) s =
     (case for_of h xs s of (Normal, s') \<Rightarrow> for_of h ys s' | (c, s') \<Rightarrow> (c, s'))"
  by (induction xs arbitrary: s) (auto split: prod.splits completion.splits)

lemma decode_append:
  "decode step d (xs @ ys) =
     (case decode step d xs of (t, d') \<Rightarrow>
        (case decode step d' ys of (ts, d'') \<Rightarrow> (t @ ts, d'')))"
  by (induction xs arbitrary: d) (auto split: prod.splits)

text \<open>What the loop does, whatever the chunking: it runs the body over every line of the
  decoded text that a newline closes, then ends as the stream ends.\<close>

lemma read_loop_lines:
  "newline \<notin> set buffer \<Longrightarrow>
   read_loop step h fin cs buffer d s =
     (case for_of h (butlast (js_split newline (buffer @ fst (decode step d (concat cs))))) s of
        (Normal, s') \<Rightarrow> stream_end fin s'
      | (c, s') \<Rightarrow> (c, s'))"
proof (induction cs arbitrary: buffer d s)
  case Nil
  then show ?case
    by (simp add: stream_end_def js_split_no_sep split: option.splits)
next
  case (Cons val rest)
  obtain tx d' where dv: "decode step d val = (tx, d')"
    by (cases "decode step d val")
  obtain rtext d'' where dr: "decode step d' (concat rest) = (rtext, d'')"
    by (cases "decode step d' (concat rest)")
  let ?split1 = "js_split newline (buffer @ tx)"
  have whole: "buffer @ fst (decode step d (concat (val # rest))) = (buffer @ tx) @ rtext"
    by (simp add: decode_append dv dr)
  have lines: "butlast (js_split newline ((buffer @ tx) @ rtext)) =
      butlast ?split1 @ butlast (js_split newline (last ?split1 @ rtext))"
    by (subst js_split_append) (simp add: butlast_append js_split_not_Nil)
  have tl: "read_loop step h fin rest (last ?split1) d' s' =
     (case for_of h (butlast (js_split newline (last ?split1 @ rtext))) s' of
        (Normal, s'') \<Rightarrow> stream_end fin s''
      | (c, s'') \<Rightarrow> (c, s''))" for s'
    using Cons.IH [of "last ?split1" d' s', OF last_js_split_no_sep] by (simp add: dr)
  show ?case
    unfolding whole lines for_of_append
    by (simp add: dv js_pop_def js_split_not_Nil or_empty_Some tl
        split: prod.splits completion.splits)
qed

subsection \<open>A decoder and input for concrete runs\<close>

lemma char_of_unat_of_char: "char_of (unat (of_char c :: byte)) = c"
proof -
  have "(of_char c :: byte) = of_nat (of_char c)" by (simp add: of_nat_of_char)
  then have "unat (of_char c :: byte) = of_char c mod 256"
    by (simp only: unat_of_nat) simp
  then show ?thesis by simp
qed

lemma decode_ascii: "decode ascii_step d (ascii_bytes s) = (s, d)"
  by (induction s) (simp_all add: ascii_bytes_def ascii_step_def char_of_unat_of_char)

subsection \<open>Chunk boundaries do not matter\<close>

text \<open>
  Claim C1. However a sequence of bytes is cut into chunks, the frame decoding loop does
  the same as on the bytes in one chunk: it runs its body on the same lines in the same
  order and ends in the same way. This holds for every body of the loop (so for the frames
  and deltas of each vendor), every text decoder, every state and every ending of the
  stream.
\<close>

theorem frame_decoding_chunk_invariant:
  assumes "concat cs = bytes"
  shows "read_loop step h fin cs [] d s = read_loop step h fin [bytes] [] d s"
  using assms by (simp add: read_loop_lines del: read_loop.simps)

theorem frame_decoding_chunk_invariant_witness:
  "concat [ascii_bytes ''da'', ascii_bytes (''ta: x'' @ [newline] @ ''da''),
           ascii_bytes (''ta: y'' @ [newline])]
     = ascii_bytes (''data: x'' @ [newline] @ ''data: y'' @ [newline])
   \<and> read_loop ascii_step collect_frame None
        [ascii_bytes ''da'', ascii_bytes (''ta: x'' @ [newline] @ ''da''),
         ascii_bytes (''ta: y'' @ [newline])] [] () []
     = read_loop ascii_step collect_frame None
        [ascii_bytes (''data: x'' @ [newline] @ ''data: y'' @ [newline])] [] () []
   \<and> read_loop ascii_step collect_frame None
        [ascii_bytes (''data: x'' @ [newline] @ ''data: y'' @ [newline])] [] () []
     = (Normal, [''x'', ''y''])"
proof -
  have c: "concat [ascii_bytes ''da'', ascii_bytes (''ta: x'' @ [newline] @ ''da''),
           ascii_bytes (''ta: y'' @ [newline])]
     = ascii_bytes (''data: x'' @ [newline] @ ''data: y'' @ [newline])"
    by (simp add: ascii_bytes_def)
  have v: "read_loop ascii_step collect_frame None
        [ascii_bytes (''data: x'' @ [newline] @ ''data: y'' @ [newline])] [] () []
     = (Normal, [''x'', ''y''])"
    by (simp add: decode_ascii collect_frame_def sse_frame_def newline_def js_pop_def or_empty_def)
  show ?thesis
    using c v frame_decoding_chunk_invariant [OF c, of ascii_step collect_frame None "()" "[]"]
    by simp
qed

subsection \<open>A final line without its newline is dropped\<close>

text \<open>
  Claim C4. When the decoded text of a stream is a sequence of lines, each closed by a
  newline, followed by a segment \<open>p\<close> that no newline closes, the loop runs its body on
  exactly those lines and then ends as the stream ends: the segment \<open>p\<close> left in the
  buffer is never handed to the body, so no frame comes of it.
\<close>

theorem truncated_final_line_dropped:
  assumes "fst (decode step d (concat cs)) = concat (map (\<lambda>l. l @ [newline]) ls) @ p"
    and "\<forall>l \<in> set ls. newline \<notin> set l" and "newline \<notin> set p"
  shows "read_loop step h fin cs [] d s =
     (case for_of h ls s of (Normal, s') \<Rightarrow> stream_end fin s' | (c, s') \<Rightarrow> (c, s'))"
  using assms by (simp add: read_loop_lines js_split_lines del: read_loop.simps)

theorem truncated_final_line_dropped_witness:
  "fst (decode ascii_step () (concat [ascii_bytes (''data: x'' @ [newline] @ ''data: y'')]))
     = concat (map (\<lambda>l. l @ [newline]) [''data: x'']) @ ''data: y''
   \<and> newline \<notin> set ''data: x'' \<and> newline \<notin> set ''data: y''
   \<and> read_loop ascii_step collect_frame None
        [ascii_bytes (''data: x'' @ [newline] @ ''data: y'')] [] () [] = (Normal, [''x''])"
proof -
  have a: "fst (decode ascii_step () (concat [ascii_bytes (''data: x'' @ [newline] @ ''data: y'')]))
     = concat (map (\<lambda>l. l @ [newline]) [''data: x'']) @ ''data: y''"
    by (simp add: decode_ascii)
  have b: "\<forall>l \<in> set [''data: x'']. newline \<notin> set l" by (simp add: newline_def)
  have c: "newline \<notin> set ''data: y''" by (simp add: newline_def)
  show ?thesis
    using a b c truncated_final_line_dropped [OF a b c, of collect_frame None "[]"]
    by (simp add: collect_frame_def sse_frame_def stream_end_def)
qed

section \<open>Delta extraction\<close>

lemma yield_part_world:
  "snd (yield_part env p w) = w\<lparr>yielded := yielded w @ [p]\<rparr>"
  "fst (yield_part env p w) \<noteq> Throw e"
  by (simp_all add: yield_part_def Let_def)


lemma opt_chain_None: "opt_chain None f = None" "opt_chain (Some JNull) f = None"
  by (simp_all add: opt_chain_def)

lemma member_not_null: "v \<noteq> JNull \<Longrightarrow> member v k = Inr (get_prop v k)"
  by (cases v) (simp_all add: member_def)

lemma member_null: "member JNull k = Inl TypeError"
  by (simp add: member_def)



text \<open>
  Claim C6 as stated does not hold: a frame whose type is \<^verbatim>\<open>content_block_delta\<close> and whose
  \<^verbatim>\<open>delta.text\<close> is present, but is the empty string, yields no part, since the code tests
  \<^verbatim>\<open>parsed.delta?.text\<close> for truthiness.
\<close>

theorem anthropic_empty_text_counterexample:
  \<open>JSON_parse (example_env (Rejects AbortError))
       ''{"type":"content_block_delta","delta":{"text":""}}''
     = Some (JObj [(''type'', JStr ''content_block_delta''),
                   (''delta'', JObj [(''text'', JStr [])])])
   \<and> get_prop (JObj [(''type'', JStr ''content_block_delta''),
                     (''delta'', JObj [(''text'', JStr [])])]) ''type''
       = Some (JStr ''content_block_delta'')
   \<and> opt_chain (get_prop (JObj [(''type'', JStr ''content_block_delta''),
                                (''delta'', JObj [(''text'', JStr [])])]) ''delta'')
         (\<lambda>d. get_prop d ''text'') = Some (JStr [])
   \<and> anthropic_line (example_env (Rejects AbortError))
         (''data: '' @ ''{"type":"content_block_delta","delta":{"text":""}}'') world0
       = (Normal, world0)
   \<and> yielded (snd (anthropic_line (example_env (Rejects AbortError))
         (''data: '' @ ''{"type":"content_block_delta","delta":{"text":""}}'') world0)) = []\<close>
  by (simp add: example_env_def example_parse_def world0_def opt_chain_def
      anthropic_line_def anthropic_text_def member_def)

text \<open>
  Claim C6, amended. For a line \<^verbatim>\<open>data: \<close> followed by a frame body, the Anthropic loop
  body yields a part exactly when the body parses to a value whose \<^verbatim>\<open>type\<close> is the string
  \<^verbatim>\<open>content_block_delta\<close> and whose \<^verbatim>\<open>delta.text\<close> is truthy (present, and not the empty
  string, zero, \<^verbatim>\<open>false\<close> or \<^verbatim>\<open>null\<close>); the part then carries that value. In every other
  case (another type of event, no text, a body that \<^verbatim>\<open>JSON.parse\<close> rejects) it yields
  nothing and completes normally. It never throws.
\<close>

theorem anthropic_delta_extraction:
  \<open>(JSON_parse env data = None \<longrightarrow> anthropic_line env (''data: '' @ data) w = (Normal, w))
   \<and> (JSON_parse env data = Some parsed \<longrightarrow>
        (if get_prop parsed ''type'' = Some (JStr ''content_block_delta'')
            \<and> truthy (opt_chain (get_prop parsed ''delta'') (\<lambda>d. get_prop d ''text''))
         then \<exists>v. opt_chain (get_prop parsed ''delta'') (\<lambda>d. get_prop d ''text'') = Some v
                \<and> snd (anthropic_line env (''data: '' @ data) w)
                    = w\<lparr>yielded := yielded w @ [\<lparr>part_type = ''text'', part_value = v\<rparr>]\<rparr>
         else anthropic_line env (''data: '' @ data) w = (Normal, w)))
   \<and> (\<forall>e. fst (anthropic_line env (''data: '' @ data) w) \<noteq> Throw e)\<close>
proof -
  let ?line = "''data: '' @ data"
  let ?text = "\<lambda>parsed. opt_chain (get_prop parsed ''delta'') (\<lambda>d. get_prop d ''text'')"
  have none: "anthropic_line env ?line w = (Normal, w)" if "JSON_parse env data = None"
    using that by (simp add: anthropic_line_def)
  have null: "anthropic_line env ?line w = (Normal, w)" if "JSON_parse env data = Some JNull"
    using that by (simp add: anthropic_line_def anthropic_text_def member_null)
  have tx: "anthropic_text parsed =
      Inr (if get_prop parsed ''type'' = Some (JStr ''content_block_delta'') \<and> truthy (?text parsed)
           then ?text parsed else None)" if "parsed \<noteq> JNull" for parsed
    using that by (simp add: anthropic_text_def member_not_null Let_def)
  have some: "anthropic_line env ?line w =
      (if get_prop parsed ''type'' = Some (JStr ''content_block_delta'') \<and> truthy (?text parsed)
       then (case ?text parsed of
               None \<Rightarrow> (Normal, w)
             | Some v \<Rightarrow> yield_part env \<lparr>part_type = ''text'', part_value = v\<rparr> w)
       else (Normal, w))" if "JSON_parse env data = Some parsed" for parsed
  proof (cases "parsed = JNull")
    case True
    with that null show ?thesis by simp
  next
    case False
    with that show ?thesis
      by (simp add: anthropic_line_def tx split: option.splits)
  qed
  have truthy_Some: "\<exists>v. x = Some v" if "truthy x" for x
    using that by (cases x) auto
  have a: "JSON_parse env data = None \<longrightarrow> anthropic_line env ?line w = (Normal, w)"
    using none by blast
  have b: "JSON_parse env data = Some parsed \<longrightarrow>
        (if get_prop parsed ''type'' = Some (JStr ''content_block_delta'') \<and> truthy (?text parsed)
         then \<exists>v. ?text parsed = Some v
                \<and> snd (anthropic_line env ?line w)
                    = w\<lparr>yielded := yielded w @ [\<lparr>part_type = ''text'', part_value = v\<rparr>]\<rparr>
         else anthropic_line env ?line w = (Normal, w))"
  proof (intro impI)
    assume p: "JSON_parse env data = Some parsed"
    show "if get_prop parsed ''type'' = Some (JStr ''content_block_delta'') \<and> truthy (?text parsed)
         then \<exists>v. ?text parsed = Some v
                \<and> snd (anthropic_line env ?line w)
                    = w\<lparr>yielded := yielded w @ [\<lparr>part_type = ''text'', part_value = v\<rparr>]\<rparr>
         else anthropic_line env ?line w = (Normal, w)"
    proof (cases "get_prop parsed ''type'' = Some (JStr ''content_block_delta'') \<and> truthy (?text parsed)")
      case True
      then obtain v where v: "?text parsed = Some v" using truthy_Some by blast
      have "anthropic_line env ?line w =
          (case ?text parsed of
             None \<Rightarrow> (Normal, w)
           | Some v \<Rightarrow> yield_part env \<lparr>part_type = ''text'', part_value = v\<rparr> w)"
        by (subst some [OF p]) (rule if_P [OF True])
      then have "anthropic_line env ?line w = yield_part env \<lparr>part_type = ''text'', part_value = v\<rparr> w"
        by (simp only: v option.case)
      then have "snd (anthropic_line env ?line w)
          = w\<lparr>yielded := yielded w @ [\<lparr>part_type = ''text'', part_value = v\<rparr>]\<rparr>"
        by (simp only: yield_part_world)
      with v have "\<exists>v. ?text parsed = Some v
                \<and> snd (anthropic_line env ?line w)
                    = w\<lparr>yielded := yielded w @ [\<lparr>part_type = ''text'', part_value = v\<rparr>]\<rparr>"
        by blast
      then show ?thesis by (subst if_P [OF True])
    next
      case False
      have "anthropic_line env ?line w = (Normal, w)"
        by (subst some [OF p]) (rule if_not_P [OF False])
      then show ?thesis by (subst if_not_P [OF False])
    qed
  qed
  have c: "fst (anthropic_line env ?line w) \<noteq> Throw e" for e
  proof (cases "JSON_parse env data")
    case None
    then show ?thesis by (simp add: none del: append.simps)
  next
    case (Some parsed)
    show ?thesis
      unfolding some [OF Some]
      by (simp add: yield_part_world split: option.splits)
  qed
  from a b c show ?thesis by blast
qed


theorem anthropic_delta_extraction_witness:
  \<open>JSON_parse (example_env (Rejects AbortError))
       ''{"type":"content_block_delta","delta":{"text":"hi"}}''
     = Some (JObj [(''type'', JStr ''content_block_delta''),
                   (''delta'', JObj [(''text'', JStr ''hi'')])])
   \<and> snd (anthropic_line (example_env (Rejects AbortError))
            (''data: '' @ ''{"type":"content_block_delta","delta":{"text":"hi"}}'') world0)
       = world0\<lparr>yielded := [\<lparr>part_type = ''text'', part_value = JStr ''hi''\<rparr>]\<rparr>
   \<and> JSON_parse (example_env (Rejects AbortError)) ''{"type":"message_stop"}''
       = Some (JObj [(''type'', JStr ''message_stop'')])
   \<and> anthropic_line (example_env (Rejects AbortError))
         (''data: '' @ ''{"type":"message_stop"}'') world0 = (Normal, world0)
   \<and> JSON_parse (example_env (Rejects AbortError)) ''not-json'' = None
   \<and> anthropic_line (example_env (Rejects AbortError)) (''data: '' @ ''not-json'') world0
       = (Normal, world0)\<close>
  using
    anthropic_delta_extraction [of "example_env (Rejects AbortError)"
      \<open>''{"type":"content_block_delta","delta":{"text":"hi"}}''\<close> world0
      "JObj [(''type'', JStr ''content_block_delta''), (''delta'', JObj [(''text'', JStr ''hi'')])]"]
    anthropic_delta_extraction [of "example_env (Rejects AbortError)"
      \<open>''{"type":"message_stop"}''\<close> world0 "JObj [(''type'', JStr ''message_stop'')]"]
    anthropic_delta_extraction [of "example_env (Rejects AbortError)" "''not-json''" world0]
  by (simp add: example_env_def example_parse_def world0_def opt_chain_def)


section \<open>The streaming generators\<close>

lemma dispose_subscribed: "dispose c (w\<lparr>listeners := c # l\<rparr>) = w\<lparr>listeners := l\<rparr>"
  by (simp add: dispose_def)

lemma fold_max_ge: "(a::nat) \<le> fold max l a \<and> (\<forall>x \<in> set l. x \<le> fold max l a)"
proof (induction l arbitrary: a)
  case Nil
  show ?case by simp
next
  case (Cons y l)
  from Cons [of "max y a"] show ?case by auto
qed

lemma new_controller_fresh: "new_controller w \<notin> set (listeners w)"
  using fold_max_ge [of 0 "listeners w"] by (auto simp: new_controller_def)

lemma await_fetch_settled:
  "fetch env rq = Resolves response \<Longrightarrow>
     await_fetch env c rq w = (Resolves response, w\<lparr>sent := sent w @ [rq]\<rparr>)"
  "fetch env rq = Rejects e \<Longrightarrow>
     await_fetch env c rq w = (Rejects e, w\<lparr>sent := sent w @ [rq]\<rparr>)"
  by (simp_all add: await_fetch_def)

lemma await_fetch_world: "snd (await_fetch env c rq w) = w\<lparr>sent := sent w @ [rq]\<rparr>"
  by (simp add: await_fetch_def Let_def)

lemma generator_run:
  "generator env vendor h rq w =
     (case read_response env vendor h (new_controller w)
             (fst (await_fetch env (new_controller w) rq
                     (w\<lparr>listeners := new_controller w # listeners w\<rparr>)))
             (w\<lparr>listeners := new_controller w # listeners w, sent := sent w @ [rq]\<rparr>) of
        (c, w') \<Rightarrow>
          (case c of
             Throw e \<Rightarrow> on_error e (dispose (new_controller w) w')
           | Suspended \<Rightarrow> (Suspended, w')
           | _ \<Rightarrow> (c, dispose (new_controller w) w')))"
  by (simp add: generator_def try_catch_def try_finally_def await_fetch_def
      onCancellationRequested_def Let_def split: prod.splits completion.splits)

lemma generator_not_ok:
  assumes "fetch env rq = Resolves response" and "\<not> ok response"
  shows "generator env vendor h rq w =
     (Throw (Error (vendor @ '' API error: '' @ statusText response)),
      w\<lparr>sent := sent w @ [rq]\<rparr>)"
  using assms
  by (simp add: generator_run await_fetch_settled read_response_def on_error_def Error_def
      dispose_def)

lemma generator_no_body:
  assumes "fetch env rq = Resolves response" and "ok response" and "body response = None"
  shows "generator env vendor h rq w =
     (Throw (Error ''No response body''), w\<lparr>sent := sent w @ [rq]\<rparr>)"
  using assms
  by (simp add: generator_run await_fetch_settled read_response_def on_error_def Error_def
      dispose_def)

text \<open>
  Claim C7. When the response does not have a success status, each of the three streams
  throws at once an error whose message carries the status text, whatever the body holds;
  when the response has no body, it throws at once as well: \<^verbatim>\<open>No response body\<close> after a
  success status, the error of the status otherwise. In both cases the world is as before
  but for the request handed to \<^verbatim>\<open>fetch\<close>: nothing is yielded and nothing of a body is
  read. The error is not named \<^verbatim>\<open>AbortError\<close>, so the \<^verbatim>\<open>catch\<close> block throws it again.
\<close>

theorem http_failure_before_any_frame:
  "(fetch env (openai_request baseURL apiKey model messages) = Resolves response
      \<and> \<not> ok response
    \<longrightarrow> streamOpenAIResponse env baseURL apiKey model messages w
        = (Throw (Error (''OpenAI API error: '' @ statusText response)),
           w\<lparr>sent := sent w @ [openai_request baseURL apiKey model messages]\<rparr>))
   \<and> (fetch env (openai_request baseURL apiKey model messages) = Resolves response
      \<and> body response = None
    \<longrightarrow> streamOpenAIResponse env baseURL apiKey model messages w
        = (Throw (if ok response then Error ''No response body''
                  else Error (''OpenAI API error: '' @ statusText response)),
           w\<lparr>sent := sent w @ [openai_request baseURL apiKey model messages]\<rparr>))
   \<and> (fetch env (anthropic_request baseURL apiKey model messages systemMessage)
        = Resolves response \<and> \<not> ok response
    \<longrightarrow> streamAnthropicResponse env baseURL apiKey model messages systemMessage w
        = (Throw (Error (''Anthropic API error: '' @ statusText response)),
           w\<lparr>sent := sent w
              @ [anthropic_request baseURL apiKey model messages systemMessage]\<rparr>))
   \<and> (fetch env (anthropic_request baseURL apiKey model messages systemMessage)
        = Resolves response \<and> body response = None
    \<longrightarrow> streamAnthropicResponse env baseURL apiKey model messages systemMessage w
        = (Throw (if ok response then Error ''No response body''
                  else Error (''Anthropic API error: '' @ statusText response)),
           w\<lparr>sent := sent w
              @ [anthropic_request baseURL apiKey model messages systemMessage]\<rparr>))
   \<and> (fetch env (ollama_request baseURL model messages) = Resolves response
      \<and> \<not> ok response
    \<longrightarrow> streamOllamaResponse env baseURL model messages w
        = (Throw (Error (''Ollama API error: '' @ statusText response)),
           w\<lparr>sent := sent w @ [ollama_request baseURL model messages]\<rparr>))
   \<and> (fetch env (ollama_request baseURL model messages) = Resolves response
      \<and> body response = None
    \<longrightarrow> streamOllamaResponse env baseURL model messages w
        = (Throw (if ok response then Error ''No response body''
                  else Error (''Ollama API error: '' @ statusText response)),
           w\<lparr>sent := sent w @ [ollama_request baseURL model messages]\<rparr>))"
  unfolding streamOpenAIResponse_def streamAnthropicResponse_def streamOllamaResponse_def
  by (intro conjI impI)
    (simp_all add: generator_run await_fetch_settled read_response_def on_error_def Error_def
      dispose_def)

theorem http_failure_before_any_frame_witness:
  "fetch (example_env (Resolves unauthorized)) (openai_request ''u'' ''k'' ''m'' [])
     = Resolves unauthorized
   \<and> \<not> ok unauthorized
   \<and> streamOpenAIResponse (example_env (Resolves unauthorized)) ''u'' ''k'' ''m'' [] world0
     = (Throw (Error ''OpenAI API error: Unauthorized''),
        world0\<lparr>sent := [openai_request ''u'' ''k'' ''m'' []]\<rparr>)
   \<and> streamAnthropicResponse (example_env (Resolves unauthorized)) ''u'' ''k'' ''m'' [] None
        world0
     = (Throw (Error ''Anthropic API error: Unauthorized''),
        world0\<lparr>sent := [anthropic_request ''u'' ''k'' ''m'' [] None]\<rparr>)
   \<and> streamOllamaResponse (example_env (Resolves unauthorized)) ''u'' ''m'' [] world0
     = (Throw (Error ''Ollama API error: Unauthorized''),
        world0\<lparr>sent := [ollama_request ''u'' ''m'' []]\<rparr>)
   \<and> fetch (example_env (Resolves no_body)) (openai_request ''u'' ''k'' ''m'' [])
     = Resolves no_body
   \<and> ok no_body \<and> body no_body = None
   \<and> streamOpenAIResponse (example_env (Resolves no_body)) ''u'' ''k'' ''m'' [] world0
     = (Throw (Error ''No response body''),
        world0\<lparr>sent := [openai_request ''u'' ''k'' ''m'' []]\<rparr>)
   \<and> streamAnthropicResponse (example_env (Resolves no_body)) ''u'' ''k'' ''m'' [] None world0
     = (Throw (Error ''No response body''),
        world0\<lparr>sent := [anthropic_request ''u'' ''k'' ''m'' [] None]\<rparr>)
   \<and> streamOllamaResponse (example_env (Resolves no_body)) ''u'' ''m'' [] world0
     = (Throw (Error ''No response body''),
        world0\<lparr>sent := [ollama_request ''u'' ''m'' []]\<rparr>)"
proof -
  have f: "fetch (example_env answer) rq = answer" for answer rq
    by (simp add: example_env_def)
  have u: "\<not> ok unauthorized" and n: "ok no_body" "body no_body = None"
    by (simp_all add: unauthorized_def no_body_def)
  have st: "statusText unauthorized = ''Unauthorized''" and w: "sent world0 = []"
    by (simp_all add: unauthorized_def world0_def)
  show ?thesis
    using
      http_failure_before_any_frame [of "example_env (Resolves unauthorized)"
        "''u''" "''k''" "''m''" "[]" unauthorized world0 None]
      http_failure_before_any_frame [of "example_env (Resolves no_body)"
        "''u''" "''k''" "''m''" "[]" no_body world0 None]
    by (simp add: f u n st w)
qed

lemma for_of_invariant:
  assumes "\<And>x s. P s \<Longrightarrow> P (snd (h x s))" and "P s"
  shows "P (snd (for_of h xs s))"
  using assms(2)
proof (induction xs arbitrary: s)
  case Nil
  then show ?case by simp
next
  case (Cons x xs)
  from assms(1) [OF Cons.prems, of x] Cons.IH show ?case
    by (cases "h x s") (auto split: completion.splits)
qed

lemma read_loop_invariant:
  assumes "\<And>x s. P s \<Longrightarrow> P (snd (h x s))" and "P s"
  shows "P (snd (read_loop step h fin cs buffer d s))"
  using assms(2)
proof (induction cs arbitrary: buffer d s)
  case Nil
  then show ?case by (simp split: option.splits)
next
  case (Cons val rest)
  obtain tx d' where dv: "decode step d val = (tx, d')"
    by (cases "decode step d val")
  obtain c s' where f: "for_of h (butlast (js_split newline (buffer @ tx))) s = (c, s')"
    by (cases "for_of h (butlast (js_split newline (buffer @ tx))) s")
  have "P s'"
    using for_of_invariant [of P h s "butlast (js_split newline (buffer @ tx))"] assms(1)
      Cons.prems f by simp
  then show ?case
    using Cons.IH [of s'] dv f
    by (simp add: js_pop_def js_split_not_Nil split: completion.splits)
qed

lemma for_of_no_throw:
  assumes "\<And>x s e. fst (h x s) \<noteq> Throw e"
  shows "fst (for_of h xs s) \<noteq> Throw e"
proof (induction xs arbitrary: s)
  case Nil
  show ?case by simp
next
  case (Cons x xs)
  show ?case
    using assms [of x s] Cons.IH
    by (cases "h x s") (auto split: completion.splits)
qed

lemma read_loop_abort:
  assumes "\<And>x s e. fst (h x s) \<noteq> Throw e"
  shows "read_loop step h (Some e) cs [] d s =
     (case read_loop step h None cs [] d s of
        (Normal, s') \<Rightarrow> (Throw e, s')
      | (c, s') \<Rightarrow> (c, s'))"
proof -
  let ?r = "for_of h (butlast (js_split newline ([] @ fst (decode step d (concat cs))))) s"
  have "fst ?r \<noteq> Throw x" for x
    by (rule for_of_no_throw [of h]) (rule assms)
  then show ?thesis
    by (cases ?r; cases "fst ?r") (auto simp: read_loop_lines stream_end_def simp del: read_loop.simps)
qed

lemma for_of_completion:
  assumes "\<And>x s. fst (h x s) = Normal \<or> fst (h x s) = Return"
  shows "fst (for_of h xs s) = Normal \<or> fst (for_of h xs s) = Return"
proof (induction xs arbitrary: s)
  case Nil
  show ?case by simp
next
  case (Cons x xs)
  show ?case
    using assms [of x s] Cons.IH
    by (cases "h x s") (auto split: completion.splits)
qed

lemma read_loop_completion:
  assumes "\<And>x s. fst (h x s) = Normal \<or> fst (h x s) = Return"
  shows "fst (read_loop step h None cs [] d s) = Normal
       \<or> fst (read_loop step h None cs [] d s) = Return"
proof -
  let ?r = "for_of h (butlast (js_split newline ([] @ fst (decode step d (concat cs))))) s"
  from for_of_completion [of h, OF assms] have "fst ?r = Normal \<or> fst ?r = Return" .
  then show ?thesis
    by (cases ?r) (auto simp: read_loop_lines stream_end_def simp del: read_loop.simps)
qed

lemma yield_part_completion:
  "fst (yield_part env p w) = Normal \<or> fst (yield_part env p w) = Return"
  "listeners (snd (yield_part env p w)) = listeners w"
  by (simp_all add: yield_part_def Let_def)

lemma openai_line_quiet:
  "fst (openai_line env l w) = Normal \<or> fst (openai_line env l w) = Return"
  "listeners (snd (openai_line env l w)) = listeners w"
  by (auto simp: openai_line_def yield_part_def Let_def split: option.splits sum.splits)

lemma anthropic_line_quiet:
  "fst (anthropic_line env l w) = Normal \<or> fst (anthropic_line env l w) = Return"
  "listeners (snd (anthropic_line env l w)) = listeners w"
  by (auto simp: anthropic_line_def yield_part_def Let_def split: option.splits sum.splits)

lemma ollama_line_quiet:
  "fst (ollama_line env l w) = Normal \<or> fst (ollama_line env l w) = Return"
  "listeners (snd (ollama_line env l w)) = listeners w"
  by (auto simp: ollama_line_def yield_part_def Let_def split: option.splits sum.splits)

lemma yield_part_surroundings:
  "yield_part (env\<lparr>token_fires := t, fetch := f\<rparr>) = yield_part env"
  by (simp add: fun_eq_iff yield_part_def)

lemma line_body_first_reads:
  "openai_line (first_reads env st cs i) = openai_line env"
  "anthropic_line (first_reads env st cs i) = anthropic_line env"
  "ollama_line (first_reads env st cs i) = ollama_line env"
  by (simp_all add: fun_eq_iff first_reads_def openai_line_def anthropic_line_def
      ollama_line_def yield_part_surroundings Let_def split: option.splits sum.splits)

lemma answered_never:
  assumes "token_fires env = None"
  shows "answered env c h reader w = reader"
proof -
  have "find (\<lambda>j. False) xs = None" for xs :: "nat list"
    by (induction xs) simp_all
  with assms show ?thesis
    by (simp add: answered_def aborted_def fired_def del: upt_Suc)
qed

lemma answered_cut:
  assumes keeps: "\<And>x s. listeners (snd (h x s)) = listeners s"
    and c: "c \<in> set (listeners w)"
    and t: "token_fires env = Some m"
    and j: "j \<le> length cs"
    and at: "m \<le> length (yielded (snd (read_loop (decoder_step env) h None (take j cs) []
                 (decoder_init env) w)))"
    and before: "\<forall>i<j. length (yielded (snd (read_loop (decoder_step env) h None (take i cs) []
                 (decoder_init env) w))) < m"
  shows "answered env c h \<lparr>chunks = cs, ending = fin\<rparr> w
       = \<lparr>chunks = take j cs, ending = Some AbortError\<rparr>"
proof -
  let ?R = "\<lambda>i. snd (read_loop (decoder_step env) h None (take i cs) [] (decoder_init env) w)"
  have l: "c \<in> set (listeners (?R i))" for i
    using read_loop_invariant [of "\<lambda>s. c \<in> set (listeners s)" h w "decoder_step env" None
        "take i cs" "[]" "decoder_init env"] keeps c
    by simp
  have ab: "aborted env c (?R i) \<longleftrightarrow> m \<le> length (yielded (?R i))" for i
    using l [of i] by (simp add: aborted_def fired_def t)
  have "find (\<lambda>i. aborted env c (?R i)) [0..<Suc (length cs)] = Some j"
    unfolding find_Some_iff
  proof (intro exI [of _ j] conjI)
    show "j < length [0..<Suc (length cs)]"
      using j by simp
    show "aborted env c (?R ([0..<Suc (length cs)] ! j))"
      using j at by (simp add: ab nth_upt del: upt_Suc)
    show "j = [0..<Suc (length cs)] ! j"
      using j by (simp add: nth_upt del: upt_Suc)
    show "\<forall>i<j. \<not> aborted env c (?R ([0..<Suc (length cs)] ! i))"
    proof (intro allI impI)
      fix i
      assume "i < j"
      with j before show "\<not> aborted env c (?R ([0..<Suc (length cs)] ! i))"
        by (simp add: ab nth_upt not_le del: upt_Suc)
    qed
  qed
  then show ?thesis
    by (simp add: answered_def del: upt_Suc)
qed

text \<open>The run of a response that ends with \<^verbatim>\<open>done\<close> after the first \<open>i\<close> chunks, the
  token never firing.\<close>

lemma generator_first_reads:
  assumes quiet: "\<And>x s. fst (h x s) = Normal \<or> fst (h x s) = Return"
  shows "generator (first_reads env st cs i) vendor h rq w =
     (case read_loop (decoder_step env) h None (take i cs) [] (decoder_init env)
             (w\<lparr>listeners := new_controller w # listeners w, sent := sent w @ [rq]\<rparr>) of
        (c, w') \<Rightarrow> (c, dispose (new_controller w) w'))"
proof -
  let ?w = "w\<lparr>listeners := new_controller w # listeners w, sent := sent w @ [rq]\<rparr>"
  let ?r = "read_loop (decoder_step env) h None (take i cs) [] (decoder_init env) ?w"
  have t: "token_fires (first_reads env st cs i) = None"
    and f: "fetch (first_reads env st cs i) rq = Resolves \<lparr>ok = True, statusText = st,
                          body = Some \<lparr>chunks = take i cs, ending = None\<rparr>\<rparr>"
    and d: "decoder_step (first_reads env st cs i) = decoder_step env"
      "decoder_init (first_reads env st cs i) = decoder_init env"
    by (simp_all add: first_reads_def)
  from read_loop_completion [of h, OF quiet] have "fst ?r = Normal \<or> fst ?r = Return" .
  then show ?thesis
    by (cases ?r)
      (auto simp add: generator_run await_fetch_settled(1) [OF f] read_response_def
        answered_never [OF t] d)
qed

text \<open>The token fires while the body is read.\<close>

lemma generator_cancelled_reading:
  assumes quiet: "\<And>x s. fst (h x s) = Normal \<or> fst (h x s) = Return"
    and keeps: "\<And>x s. listeners (snd (h x s)) = listeners s"
    and f: "fetch env rq = Resolves \<lparr>ok = True, statusText = st,
                body = Some \<lparr>chunks = cs, ending = fin\<rparr>\<rparr>"
    and t: "token_fires env = Some m"
    and j: "j \<le> length cs"
    and at: "m \<le> length (yielded (snd (generator (first_reads env st cs j) vendor h rq w)))"
    and before:
      "\<forall>i<j. length (yielded (snd (generator (first_reads env st cs i) vendor h rq w))) < m"
  shows "generator env vendor h rq w
       = (Return, snd (generator (first_reads env st cs j) vendor h rq w))"
proof -
  let ?c = "new_controller w"
  let ?w = "w\<lparr>listeners := ?c # listeners w, sent := sent w @ [rq]\<rparr>"
  let ?R = "\<lambda>i. read_loop (decoder_step env) h None (take i cs) [] (decoder_init env) ?w"
  have y: "yielded (snd (generator (first_reads env st cs i) vendor h rq w))
         = yielded (snd (?R i))" for i
    by (cases "?R i") (simp add: generator_first_reads [of h, OF quiet] dispose_def)
  have cut: "answered env ?c h \<lparr>chunks = cs, ending = fin\<rparr> ?w
           = \<lparr>chunks = take j cs, ending = Some AbortError\<rparr>"
    using at before
    by (intro answered_cut [of h, OF keeps _ t j]) (simp_all add: y)
  have nt: "fst (h x s) \<noteq> Throw e" for x s e
    using quiet [of x s] by auto
  obtain k s' where r: "?R j = (k, s')"
    by (cases "?R j")
  from read_loop_completion [of h, OF quiet, of "decoder_step env" "take j cs" "decoder_init env" ?w]
  have k: "k = Normal \<or> k = Return"
    by (simp add: r)
  have run: "read_loop (decoder_step env) h (Some AbortError) (take j cs) [] (decoder_init env) ?w
     = (case k of Normal \<Rightarrow> (Throw AbortError, s') | _ \<Rightarrow> (k, s'))"
    using k by (auto simp add: read_loop_abort [of h, OF nt] r)
  have n: "err_name AbortError = ''AbortError''"
    by (simp add: AbortError_def)
  have "generator env vendor h rq w = (Return, dispose ?c s')"
    using k
    by (auto simp add: generator_run await_fetch_settled(1) [OF f] read_response_def cut run
        on_error_def n)
  moreover have "snd (generator (first_reads env st cs j) vendor h rq w) = dispose ?c s'"
    by (simp add: generator_first_reads [of h, OF quiet] r)
  ultimately show ?thesis by simp
qed

text \<open>The token fires while \<^verbatim>\<open>fetch\<close> is pending; and a \<^verbatim>\<open>fetch\<close> that stays pending.\<close>

lemma generator_cancelled_fetching:
  assumes "fetch env rq = Pending" and "token_fires env = Some m" and "m \<le> length (yielded w)"
  shows "generator env vendor h rq w = (Return, w\<lparr>sent := sent w @ [rq]\<rparr>)"
  using assms
  by (simp add: generator_run await_fetch_def read_response_def aborted_def fired_def
      on_error_def AbortError_def dispose_def)

lemma generator_suspended:
  assumes "fetch env rq = Pending" and "\<not> fired env w"
  shows "generator env vendor h rq w
       = (Suspended, w\<lparr>listeners := new_controller w # listeners w, sent := sent w @ [rq]\<rparr>)"
  using assms
  by (simp add: generator_run await_fetch_def read_response_def aborted_def fired_def
      split: option.splits)

text \<open>The listener is disposed of whenever the generator completes.\<close>

lemma generator_listeners:
  assumes keeps: "\<And>x s. listeners (snd (h x s)) = listeners s"
    and completes: "fst (generator env vendor h rq w) \<noteq> Suspended"
  shows "listeners (snd (generator env vendor h rq w)) = listeners w"
proof -
  let ?c = "new_controller w"
  let ?w = "w\<lparr>listeners := ?c # listeners w, sent := sent w @ [rq]\<rparr>"
  have rl: "listeners (snd (read_loop (decoder_step env) h fin cs [] (decoder_init env) ?w))
      = ?c # listeners w" for fin cs
    using read_loop_invariant [of "\<lambda>s. listeners s = ?c # listeners w" h ?w
        "decoder_step env" fin cs "[]" "decoder_init env"] keeps
    by simp
  have "listeners (snd (read_response env vendor h ?c answer ?w)) = ?c # listeners w" for answer
    using rl by (simp add: read_response_def Let_def split: fetch_result.splits option.splits)
  from this [of "fst (await_fetch env ?c rq (w\<lparr>listeners := ?c # listeners w\<rparr>))"]
  obtain k b where rr: "read_response env vendor h ?c
        (fst (await_fetch env ?c rq (w\<lparr>listeners := ?c # listeners w\<rparr>))) ?w = (k, b)"
    and b: "listeners b = ?c # listeners w"
    by (cases "read_response env vendor h ?c
        (fst (await_fetch env ?c rq (w\<lparr>listeners := ?c # listeners w\<rparr>))) ?w") auto
  show ?thesis
    using completes
    by (cases k) (simp_all add: generator_run rr b on_error_def dispose_def)
qed



text \<open>
  Claim C3, as stated, fails on the code: the token that fires does not end the sequence
  with no further delta. The token aborts the controller, and the abort is seen by the
  next \<^verbatim>\<open>reader.read()\<close> only; the loop over the lines of the chunk already read goes on and
  yields their deltas. Here the body is one chunk of three lines, each with the delta
  \<^verbatim>\<open>hi\<close>, and the token fires once the consumer holds the first part (it has not fired
  before): the consumer is handed two more parts, and then the stream ends by \<^verbatim>\<open>return\<close>.
\<close>

theorem token_fired_further_deltas_counterexample:
  "\<not> fired (cancelling 1 (Resolves (streaming [ascii_bytes (hi_line @ hi_line @ hi_line)])))
        world0
   \<and> fired (cancelling 1 (Resolves (streaming [ascii_bytes (hi_line @ hi_line @ hi_line)])))
        (world0\<lparr>yielded := [hi_part]\<rparr>)
   \<and> streamOpenAIResponse
        (cancelling 1 (Resolves (streaming [ascii_bytes (hi_line @ hi_line @ hi_line)])))
        ''u'' ''k'' ''m'' [] world0
     = (Return, world0\<lparr>yielded := [hi_part, hi_part, hi_part],
                       sent := [openai_request ''u'' ''k'' ''m'' []]\<rparr>)"
  by (simp add: streamOpenAIResponse_def generator_run read_response_def cancelling_def
      example_env_def world0_def streaming_def hi_line_def hi_part_def await_fetch_def
      answered_def aborted_def fired_def new_controller_def decode_ascii js_pop_def
      or_empty_def newline_def openai_line_def example_parse_def openai_content_def
      member_def opt_chain_def yield_part_def dispose_def on_error_def AbortError_def)

text \<open>
  Claim C3, amended. For each of the three streams:
  \<^item> When the token fires while the body of a response of success status is read, no
    further chunk is read and the stream ends by \<^verbatim>\<open>return\<close>, with no error: the world is the
    one of a response that ends with \<^verbatim>\<open>done\<close> after the chunks read so far. These are the
    first \<open>j\<close> chunks, where the consumer holds the \<open>m\<close> parts at which the token fires
    after \<open>j\<close> chunks and not after fewer: the parts delivered after the token has fired are
    at most those of the lines of the chunk already read, the \<open>j\<close>-th.
  \<^item> When the token fires while \<^verbatim>\<open>fetch\<close> is pending, the stream ends by \<^verbatim>\<open>return\<close>:
    nothing is yielded, nothing is thrown.
  \<^item> The listener is subscribed to the token when the stream starts: while \<^verbatim>\<open>fetch\<close> is
    pending and the token has not fired, the generator is suspended with the listener of
    its controller among the listeners of the token.
  \<^item> The listener is disposed of on every path on which the generator completes (the
    stream read to its end, an error thrown, an abort, the consumer giving the sequence up
    at a \<^verbatim>\<open>yield\<close>): the token has the listeners it had before.
\<close>

theorem token_fired_ends_stream:
  "(fetch env (openai_request baseURL apiKey model messages)
      = Resolves \<lparr>ok = True, statusText = st, body = Some \<lparr>chunks = cs, ending = fin\<rparr>\<rparr>
    \<and> token_fires env = Some m \<and> j \<le> length cs
    \<and> m \<le> length (yielded (snd (streamOpenAIResponse (first_reads env st cs j)
          baseURL apiKey model messages w)))
    \<and> (\<forall>i<j. length (yielded (snd (streamOpenAIResponse (first_reads env st cs i)
          baseURL apiKey model messages w))) < m)
    \<longrightarrow> streamOpenAIResponse env baseURL apiKey model messages w
        = (Return, snd (streamOpenAIResponse (first_reads env st cs j)
          baseURL apiKey model messages w)))
   \<and> (fetch env (openai_request baseURL apiKey model messages) = Pending
    \<and> token_fires env = Some m \<and> m \<le> length (yielded w)
    \<longrightarrow> streamOpenAIResponse env baseURL apiKey model messages w
        = (Return, w\<lparr>sent := sent w @ [openai_request baseURL apiKey model messages]\<rparr>))
   \<and> (fetch env (openai_request baseURL apiKey model messages) = Pending
    \<and> \<not> fired env w
    \<longrightarrow> streamOpenAIResponse env baseURL apiKey model messages w
        = (Suspended,
           w\<lparr>listeners := new_controller w # listeners w,
             sent := sent w @ [openai_request baseURL apiKey model messages]\<rparr>))
   \<and> (fst (streamOpenAIResponse env baseURL apiKey model messages w) \<noteq> Suspended
    \<longrightarrow> listeners (snd (streamOpenAIResponse env baseURL apiKey model messages w))
        = listeners w)
   \<and> (fetch env (anthropic_request baseURL apiKey model messages systemMessage)
      = Resolves \<lparr>ok = True, statusText = st, body = Some \<lparr>chunks = cs, ending = fin\<rparr>\<rparr>
    \<and> token_fires env = Some m \<and> j \<le> length cs
    \<and> m \<le> length (yielded (snd (streamAnthropicResponse (first_reads env st cs j)
          baseURL apiKey model messages systemMessage w)))
    \<and> (\<forall>i<j. length (yielded (snd (streamAnthropicResponse (first_reads env st cs i)
          baseURL apiKey model messages systemMessage w))) < m)
    \<longrightarrow> streamAnthropicResponse env baseURL apiKey model messages systemMessage w
        = (Return, snd (streamAnthropicResponse (first_reads env st cs j)
          baseURL apiKey model messages systemMessage w)))
   \<and> (fetch env (anthropic_request baseURL apiKey model messages systemMessage) = Pending
    \<and> token_fires env = Some m \<and> m \<le> length (yielded w)
    \<longrightarrow> streamAnthropicResponse env baseURL apiKey model messages systemMessage w
        = (Return, w\<lparr>sent := sent w @ [anthropic_request baseURL apiKey model messages systemMessage]\<rparr>))
   \<and> (fetch env (anthropic_request baseURL apiKey model messages systemMessage) = Pending
    \<and> \<not> fired env w
    \<longrightarrow> streamAnthropicResponse env baseURL apiKey model messages systemMessage w
        = (Suspended,
           w\<lparr>listeners := new_controller w # listeners w,
             sent := sent w @ [anthropic_request baseURL apiKey model messages systemMessage]\<rparr>))
   \<and> (fst (streamAnthropicResponse env baseURL apiKey model messages systemMessage w) \<noteq> Suspended
    \<longrightarrow> listeners (snd (streamAnthropicResponse env baseURL apiKey model messages systemMessage w))
        = listeners w)
   \<and> (fetch env (ollama_request baseURL model messages)
      = Resolves \<lparr>ok = True, statusText = st, body = Some \<lparr>chunks = cs, ending = fin\<rparr>\<rparr>
    \<and> token_fires env = Some m \<and> j \<le> length cs
    \<and> m \<le> length (yielded (snd (streamOllamaResponse (first_reads env st cs j)
          baseURL model messages w)))
    \<and> (\<forall>i<j. length (yielded (snd (streamOllamaResponse (first_reads env st cs i)
          baseURL model messages w))) < m)
    \<longrightarrow> streamOllamaResponse env baseURL model messages w
        = (Return, snd (streamOllamaResponse (first_reads env st cs j)
          baseURL model messages w)))
   \<and> (fetch env (ollama_request baseURL model messages) = Pending
    \<and> token_fires env = Some m \<and> m \<le> length (yielded w)
    \<longrightarrow> streamOllamaResponse env baseURL model messages w
        = (Return, w\<lparr>sent := sent w @ [ollama_request baseURL model messages]\<rparr>))
   \<and> (fetch env (ollama_request baseURL model messages) = Pending
    \<and> \<not> fired env w
    \<longrightarrow> streamOllamaResponse env baseURL model messages w
        = (Suspended,
           w\<lparr>listeners := new_controller w # listeners w,
             sent := sent w @ [ollama_request baseURL model messages]\<rparr>))
   \<and> (fst (streamOllamaResponse env baseURL model messages w) \<noteq> Suspended
    \<longrightarrow> listeners (snd (streamOllamaResponse env baseURL model messages w))
        = listeners w)"
proof -
  have reading: "fetch env rq = Resolves \<lparr>ok = True, statusText = st,
                body = Some \<lparr>chunks = cs, ending = fin\<rparr>\<rparr>
        \<and> token_fires env = Some m \<and> j \<le> length cs
        \<and> m \<le> length (yielded (snd (generator (first_reads env st cs j) vendor h rq w)))
        \<and> (\<forall>i<j. length (yielded (snd (generator (first_reads env st cs i) vendor h rq w)))
               < m)
      \<longrightarrow> generator env vendor h rq w
       = (Return, snd (generator (first_reads env st cs j) vendor h rq w))"
    if "\<And>x s. fst (h x s) = Normal \<or> fst (h x s) = Return"
      and "\<And>x s. listeners (snd (h x s)) = listeners s"
    for vendor h rq
    using generator_cancelled_reading [of h env rq st cs fin m j vendor w, OF that]
    by blast
  have fetching: "fetch env rq = Pending \<and> token_fires env = Some m \<and> m \<le> length (yielded w)
      \<longrightarrow> generator env vendor h rq w = (Return, w\<lparr>sent := sent w @ [rq]\<rparr>)"
    for vendor h rq
    using generator_cancelled_fetching [of env rq m w vendor h] by simp
  have suspended: "fetch env rq = Pending \<and> \<not> fired env w
      \<longrightarrow> generator env vendor h rq w
       = (Suspended, w\<lparr>listeners := new_controller w # listeners w, sent := sent w @ [rq]\<rparr>)"
    for vendor h rq
    using generator_suspended [of env rq w vendor h] by simp
  have released: "fst (generator env vendor h rq w) \<noteq> Suspended
      \<longrightarrow> listeners (snd (generator env vendor h rq w)) = listeners w"
    if "\<And>x s. listeners (snd (h x s)) = listeners s"
    for vendor h rq
    using generator_listeners [of h env vendor rq w, OF that] by simp
  show ?thesis
    unfolding streamOpenAIResponse_def streamAnthropicResponse_def streamOllamaResponse_def
      line_body_first_reads
    by (intro conjI reading fetching suspended released
        openai_line_quiet anthropic_line_quiet ollama_line_quiet)
qed

theorem token_fired_ends_stream_witness:
  "fetch (cancelling 1 (Resolves (streaming [ascii_bytes hi_line, ascii_bytes hi_line])))
        (openai_request ''u'' ''k'' ''m'' [])
     = Resolves \<lparr>ok = True, statusText = ''OK'',
         body = Some \<lparr>chunks = [ascii_bytes hi_line, ascii_bytes hi_line], ending = None\<rparr>\<rparr>
   \<and> token_fires (cancelling 1 (Resolves (streaming [ascii_bytes hi_line, ascii_bytes hi_line])))
     = Some 1
   \<and> (1::nat) \<le> length [ascii_bytes hi_line, ascii_bytes hi_line]
   \<and> 1 \<le> length (yielded (snd (streamOpenAIResponse
        (first_reads (cancelling 1 (Resolves (streaming [ascii_bytes hi_line, ascii_bytes hi_line])))
           ''OK'' [ascii_bytes hi_line, ascii_bytes hi_line] 1)
        ''u'' ''k'' ''m'' [] world0)))
   \<and> length (yielded (snd (streamOpenAIResponse
        (first_reads (cancelling 1 (Resolves (streaming [ascii_bytes hi_line, ascii_bytes hi_line])))
           ''OK'' [ascii_bytes hi_line, ascii_bytes hi_line] 0)
        ''u'' ''k'' ''m'' [] world0))) < 1
   \<and> streamOpenAIResponse
        (cancelling 1 (Resolves (streaming [ascii_bytes hi_line, ascii_bytes hi_line])))
        ''u'' ''k'' ''m'' [] world0
     = (Return, world0\<lparr>yielded := [hi_part], sent := [openai_request ''u'' ''k'' ''m'' []]\<rparr>)
   \<and> listeners (snd (streamOpenAIResponse
        (cancelling 1 (Resolves (streaming [ascii_bytes hi_line, ascii_bytes hi_line])))
        ''u'' ''k'' ''m'' [] world0))
     = listeners world0
   \<and> fetch (cancelling 0 Pending) (openai_request ''u'' ''k'' ''m'' []) = Pending
   \<and> token_fires (cancelling 0 Pending) = Some 0
   \<and> streamOpenAIResponse (cancelling 0 Pending) ''u'' ''k'' ''m'' [] world0
     = (Return, world0\<lparr>sent := [openai_request ''u'' ''k'' ''m'' []]\<rparr>)
   \<and> streamAnthropicResponse (cancelling 0 Pending) ''u'' ''k'' ''m'' [] None world0
     = (Return, world0\<lparr>sent := [anthropic_request ''u'' ''k'' ''m'' [] None]\<rparr>)
   \<and> streamOllamaResponse (cancelling 0 Pending) ''u'' ''m'' [] world0
     = (Return, world0\<lparr>sent := [ollama_request ''u'' ''m'' []]\<rparr>)
   \<and> fetch (example_env Pending) (openai_request ''u'' ''k'' ''m'' []) = Pending
   \<and> \<not> fired (example_env Pending) world0
   \<and> streamOpenAIResponse (example_env Pending) ''u'' ''k'' ''m'' [] world0
     = (Suspended, world0\<lparr>listeners := [new_controller world0],
                          sent := [openai_request ''u'' ''k'' ''m'' []]\<rparr>)"
proof -
  let ?cs = "[ascii_bytes hi_line, ascii_bytes hi_line]"
  let ?E = "cancelling 1 (Resolves (streaming ?cs))"
  let ?rq = "openai_request ''u'' ''k'' ''m'' []"
  have f: "fetch ?E ?rq = Resolves \<lparr>ok = True, statusText = ''OK'',
         body = Some \<lparr>chunks = ?cs, ending = None\<rparr>\<rparr>"
    and t: "token_fires ?E = Some 1"
    by (simp_all add: cancelling_def example_env_def streaming_def)
  have q0: "snd (streamOpenAIResponse (first_reads ?E ''OK'' ?cs 0) ''u'' ''k'' ''m'' [] world0)
      = world0\<lparr>sent := [?rq]\<rparr>"
    by (simp add: streamOpenAIResponse_def generator_first_reads [of _, OF openai_line_quiet(1)]
        world0_def dispose_def)
  have q1: "snd (streamOpenAIResponse (first_reads ?E ''OK'' ?cs 1) ''u'' ''k'' ''m'' [] world0)
      = world0\<lparr>yielded := [hi_part], sent := [?rq]\<rparr>"
    by (simp add: streamOpenAIResponse_def generator_first_reads [of _, OF openai_line_quiet(1)]
        line_body_first_reads cancelling_def example_env_def world0_def hi_line_def hi_part_def
        decode_ascii js_pop_def or_empty_def newline_def openai_line_def example_parse_def
        openai_content_def member_def opt_chain_def yield_part_def dispose_def)
  have p: "fetch (cancelling 0 Pending) rq = Pending"
    "token_fires (cancelling 0 Pending) = Some 0"
    "fetch (example_env Pending) rq = Pending"
    "\<not> fired (example_env Pending) world0" for rq
    by (simp_all add: cancelling_def example_env_def fired_def)
  have b: "\<forall>i<1. length (yielded (snd (streamOpenAIResponse (first_reads ?E ''OK'' ?cs i)
        ''u'' ''k'' ''m'' [] world0))) < 1"
    using q0 by (simp add: world0_def)
  show ?thesis
    using f t q0 q1 p b
      token_fired_ends_stream [of ?E "''u''" "''k''" "''m''" "[]" "''OK''" ?cs None 1 1 world0]
      token_fired_ends_stream [of "cancelling 0 Pending" "''u''" "''k''" "''m''" "[]" _ _ _ 0 _
        world0 None]
      token_fired_ends_stream [of "example_env Pending" "''u''" "''k''" "''m''" "[]" _ _ _ _ _
        world0]
    by (simp add: world0_def)
qed

section \<open>Sending a chat request\<close>

lemma hardcodedKey_truthy: "\<not> falsy (js_or a (Some hardcodedKey))"
  by (simp add: falsy_def js_or_def hardcodedKey_def split: option.splits)

lemma hardcodedKey_not_falsy: "\<not> falsy (Some hardcodedKey)"
  by (simp add: falsy_def hardcodedKey_def)

lemma js_or_None: "js_or None b = b" "js_or (Some []) b = b"
  by (simp_all add: js_or_def)

lemma template_Some: "template (Some s) = s"
  by (simp add: template_def)

lemma line_body_sent:
  "sent (snd (openai_line env l w)) = sent w"
  "sent (snd (anthropic_line env l w)) = sent w"
  "sent (snd (ollama_line env l w)) = sent w"
  by (auto simp: openai_line_def anthropic_line_def ollama_line_def yield_part_def Let_def
      split: option.splits sum.splits)

lemma generator_sent:
  assumes "\<And>x s. sent (snd (h x s)) = sent s"
  shows "sent (snd (generator env vendor h rq w)) = sent w @ [rq]"
proof -
  let ?c = "new_controller w"
  let ?w = "w\<lparr>listeners := ?c # listeners w, sent := sent w @ [rq]\<rparr>"
  have rl: "sent (snd (read_loop (decoder_step env) h fin cs [] (decoder_init env) ?w))
      = sent w @ [rq]" for fin cs
    using read_loop_invariant [of "\<lambda>s. sent s = sent w @ [rq]" h ?w
        "decoder_step env" fin cs "[]" "decoder_init env"] assms
    by simp
  have "sent (snd (read_response env vendor h ?c answer ?w)) = sent w @ [rq]" for answer
    using rl by (simp add: read_response_def Let_def split: fetch_result.splits option.splits)
  from this [of "fst (await_fetch env ?c rq (w\<lparr>listeners := ?c # listeners w\<rparr>))"]
  obtain k b where rr: "read_response env vendor h ?c
        (fst (await_fetch env ?c rq (w\<lparr>listeners := ?c # listeners w\<rparr>))) ?w = (k, b)"
    and b: "sent b = sent w @ [rq]"
    by (cases "read_response env vendor h ?c
        (fst (await_fetch env ?c rq (w\<lparr>listeners := ?c # listeners w\<rparr>))) ?w") auto
  show ?thesis
    by (cases k) (simp_all add: generator_run rr b on_error_def dispose_def)
qed

text \<open>
  Claim C2 fails on the code for the OpenAI provider. The chain of \<^verbatim>\<open>||\<close> that computes
  \<^verbatim>\<open>apiKey\<close> ends in a literal, so \<^verbatim>\<open>apiKey\<close> is never falsy and the guard
  \<^verbatim>\<open>if (!apiKey) { throw ... }\<close> never fires: \<^verbatim>\<open>sendChatRequest\<close> rejects in no
  environment. Where neither \<^verbatim>\<open>process.env\<close> nor the settings hold a key, it returns the
  stream that sends the request with the literal in its \<^verbatim>\<open>Authorization\<close> header. The
  Anthropic provider, which has no such literal, rejects before any request is sent
  (\<open>anthropic_missing_key_rejected\<close> below).
\<close>

theorem openai_hardcoded_key_used:
  "(\<forall>e. OpenAI_sendChatRequest env modelId messages \<noteq> Inl e)
   \<and> OpenAI_sendChatRequest (example_env answer) modelId messages
     = Inr (streamOpenAIResponse (example_env answer) ''https://api.openai.com/v1''
              hardcodedKey (replace_first ''openai-'' [] modelId)
              (map openai_message messages))
   \<and> sent (snd (streamOpenAIResponse (example_env answer) ''https://api.openai.com/v1''
              hardcodedKey (replace_first ''openai-'' [] modelId)
              (map openai_message messages) world0))
     = [openai_request ''https://api.openai.com/v1'' hardcodedKey
          (replace_first ''openai-'' [] modelId) (map openai_message messages)]
   \<and> map_of (headers (openai_request ''https://api.openai.com/v1'' hardcodedKey
          (replace_first ''openai-'' [] modelId) (map openai_message messages)))
        ''Authorization'' = Some (''Bearer '' @ hardcodedKey)"
proof (intro conjI allI)
  show "OpenAI_sendChatRequest env modelId messages \<noteq> Inl e" for e
    by (simp add: OpenAI_sendChatRequest_def Let_def hardcodedKey_truthy)
  show "OpenAI_sendChatRequest (example_env answer) modelId messages
     = Inr (streamOpenAIResponse (example_env answer) ''https://api.openai.com/v1''
              hardcodedKey (replace_first ''openai-'' [] modelId)
              (map openai_message messages))"
    by (simp add: OpenAI_sendChatRequest_def Let_def hardcodedKey_not_falsy env_var_def
        example_env_def js_or_None template_Some)
  show "sent (snd (streamOpenAIResponse (example_env answer) ''https://api.openai.com/v1''
              hardcodedKey (replace_first ''openai-'' [] modelId)
              (map openai_message messages) world0))
     = [openai_request ''https://api.openai.com/v1'' hardcodedKey
          (replace_first ''openai-'' [] modelId) (map openai_message messages)]"
    by (simp add: streamOpenAIResponse_def generator_sent line_body_sent world0_def)
  show "map_of (headers (openai_request ''https://api.openai.com/v1'' hardcodedKey
          (replace_first ''openai-'' [] modelId) (map openai_message messages)))
        ''Authorization'' = Some (''Bearer '' @ hardcodedKey)"
    by (simp add: openai_request_def)
qed

lemma anthropic_missing_key_rejected:
  assumes "falsy (getValue env ''languageModels.anthropic.apiKey'')"
  shows "Anthropic_sendChatRequest env modelId messages =
     Inl (Error (''Anthropic API key not configured. Please set '' @
                 ''languageModels.anthropic.apiKey in settings.''))"
  using assms by (simp add: Anthropic_sendChatRequest_def Let_def)

text \<open>
  Claim C8. When the Anthropic key is configured, \<^verbatim>\<open>sendChatRequest\<close> returns a stream that
  sends one request, and in the body of that request
  \<^item> the message array is made of the messages whose role is not \<^verbatim>\<open>System\<close>, in their
    order, a \<^verbatim>\<open>User\<close> message with the role \<^verbatim>\<open>user\<close> and any other with the role
    \<^verbatim>\<open>assistant\<close>, each with the text of its text parts;
  \<^item> every role in the array is \<^verbatim>\<open>user\<close> or \<^verbatim>\<open>assistant\<close>;
  \<^item> the field \<^verbatim>\<open>system\<close> is absent when no message has the role \<^verbatim>\<open>System\<close>, and otherwise
    holds the text of the first such message (and of no other).
\<close>

theorem anthropic_message_conversion:
  assumes "\<not> falsy (getValue env ''languageModels.anthropic.apiKey'')"
  shows "\<exists>stream rq.
      Anthropic_sendChatRequest env modelId messages = Inr stream
    \<and> sent (snd (stream w)) = sent w @ [rq]
    \<and> req_messages (payload rq)
        = map (\<lambda>msg. \<lparr>wire_role = (case role msg of User \<Rightarrow> ''user'' | _ \<Rightarrow> ''assistant''),
                      wire_content = content_text (content msg)\<rparr>)
            (filter (\<lambda>msg. role msg \<noteq> System) messages)
    \<and> (\<forall>m \<in> set (req_messages (payload rq)).
          wire_role m = ''user'' \<or> wire_role m = ''assistant'')
    \<and> req_system (payload rq)
        = (case filter (\<lambda>msg. role msg = System) messages of
             [] \<Rightarrow> None
           | m # _ \<Rightarrow> Some (content_text (content m)))"
proof -
  let ?msgs = "map anthropic_message (filter (\<lambda>msg. role msg \<noteq> System) messages)"
  let ?sys = "find (\<lambda>msg. role msg = System) messages"
  let ?rq = "anthropic_request
      (template (js_or (getValue env ''languageModels.anthropic.baseURL'')
                       (Some ''https://api.anthropic.com/v1'')))
      (template (getValue env ''languageModels.anthropic.apiKey''))
      (replace_first ''anthropic-'' [] modelId) ?msgs ?sys"
  let ?stream = "streamAnthropicResponse env
      (template (js_or (getValue env ''languageModels.anthropic.baseURL'')
                       (Some ''https://api.anthropic.com/v1'')))
      (template (getValue env ''languageModels.anthropic.apiKey''))
      (replace_first ''anthropic-'' [] modelId) ?msgs ?sys"
  have s: "Anthropic_sendChatRequest env modelId messages = Inr ?stream"
    using assms by (simp add: Anthropic_sendChatRequest_def Let_def)
  have t: "sent (snd (?stream w)) = sent w @ [?rq]"
    by (simp add: streamAnthropicResponse_def generator_sent line_body_sent)
  have m: "req_messages (payload ?rq)
        = map (\<lambda>msg. \<lparr>wire_role = (case role msg of User \<Rightarrow> ''user'' | _ \<Rightarrow> ''assistant''),
                      wire_content = content_text (content msg)\<rparr>)
            (filter (\<lambda>msg. role msg \<noteq> System) messages)"
    by (auto simp: anthropic_request_def anthropic_message_def split: ChatMessageRole.splits)
  have r: "\<forall>m \<in> set (req_messages (payload ?rq)).
          wire_role m = ''user'' \<or> wire_role m = ''assistant''"
    by (auto simp: anthropic_request_def anthropic_message_def)
  have f: "find P xs = (case filter P xs of [] \<Rightarrow> None | x # _ \<Rightarrow> Some x)" for P and xs :: "'z list"
    by (induction xs) auto
  have y: "req_system (payload ?rq)
        = (case filter (\<lambda>msg. role msg = System) messages of
             [] \<Rightarrow> None
           | m # _ \<Rightarrow> Some (content_text (content m)))"
    by (simp add: anthropic_request_def f split: list.splits)
  from s t m r y show ?thesis by blast
qed


theorem anthropic_message_conversion_witness:
  "\<not> falsy (getValue ((example_env (Rejects AbortError))
          \<lparr>getValue := \<lambda>k. if k = ''languageModels.anthropic.apiKey'' then Some ''key'' else None\<rparr>)
        ''languageModels.anthropic.apiKey'')
   \<and> (\<exists>stream rq.
        Anthropic_sendChatRequest ((example_env (Rejects AbortError))
          \<lparr>getValue := \<lambda>k. if k = ''languageModels.anthropic.apiKey'' then Some ''key'' else None\<rparr>)
          ''anthropic-claude-3.5-sonnet''
          [\<lparr>role = System, content = [TextPart ''be brief'']\<rparr>,
           \<lparr>role = User, content = [TextPart ''hi'', OtherPart]\<rparr>,
           \<lparr>role = Assistant, content = [TextPart ''hello'']\<rparr>,
           \<lparr>role = System, content = [TextPart ''second'']\<rparr>] = Inr stream
      \<and> sent (snd (stream world0)) = sent world0 @ [rq]
      \<and> req_messages (payload rq)
          = [\<lparr>wire_role = ''user'', wire_content = ''hi''\<rparr>,
             \<lparr>wire_role = ''assistant'', wire_content = ''hello''\<rparr>]
      \<and> req_system (payload rq) = Some ''be brief'')"
proof -
  let ?env = "(example_env (Rejects AbortError))
          \<lparr>getValue := \<lambda>k. if k = ''languageModels.anthropic.apiKey'' then Some ''key'' else None\<rparr>"
  have k: "\<not> falsy (getValue ?env ''languageModels.anthropic.apiKey'')"
    by (simp add: falsy_def)
  show ?thesis
    using k anthropic_message_conversion [OF k, of "''anthropic-claude-3.5-sonnet''"
      "[\<lparr>role = System, content = [TextPart ''be brief'']\<rparr>,
        \<lparr>role = User, content = [TextPart ''hi'', OtherPart]\<rparr>,
        \<lparr>role = Assistant, content = [TextPart ''hello'']\<rparr>,
        \<lparr>role = System, content = [TextPart ''second'']\<rparr>]" world0]
    by (simp add: content_text_def) blast
qed

section \<open>Choosing the default model\<close>

lemma find_by_identifier:
  assumes "distinct (map identifier ds)" and "d \<in> set ds"
  shows "find (\<lambda>x. identifier x = identifier d) ds = Some d"
  using assms
proof (induction ds)
  case Nil
  then show ?case by simp
next
  case (Cons a ds)
  then show ?case by (cases "a = d") (auto simp: image_iff)
qed

lemma lookup_descriptor:
  assumes "distinct (getLanguageModelIds dir)" and "d \<in> set (descriptors dir)"
  shows "lookupLanguageModel dir (identifier d) = Some (metadata d)"
  using assms
  by (simp add: lookupLanguageModel_def getLanguageModelIds_def find_by_identifier)

lemma find_default_scan:
  assumes "distinct (getLanguageModelIds dir)" and "set xs \<subseteq> set (descriptors dir)"
  shows "find_default dir (map identifier xs) =
     map_option (\<lambda>d. (identifier d, metadata d)) (find (\<lambda>d. isDefault (metadata d)) xs)"
  using assms(2)
proof (induction xs)
  case Nil
  then show ?case by simp
next
  case (Cons x xs)
  then show ?case
    by (simp add: lookup_descriptor [OF assms(1)])
qed

lemma no_nonempty_snapshot:
  assumes "descriptors dir = []"
  shows "dropWhile (\<lambda>(vendor, snapshot). snapshot = []) dir = []"
  using assms by (induction dir) (auto simp: descriptors_def)

lemma first_nonempty_snapshot:
  assumes "descriptors dir = d0 # ds"
  shows "\<exists>vendor snapshot rest.
     dropWhile (\<lambda>(vendor, snapshot). snapshot = []) dir = (vendor, d0 # snapshot) # rest"
  using assms
proof (induction dir)
  case Nil
  then show ?case by (simp add: descriptors_def)
next
  case (Cons vs dir)
  obtain vendor snapshot where vs: "vs = (vendor, snapshot)"
    by (cases vs)
  show ?case
  proof (cases snapshot)
    case Nil
    with Cons vs show ?thesis by (simp add: descriptors_def)
  next
    case (Cons d snapshot')
    with Cons.prems vs have "d = d0" by (simp add: descriptors_def)
    with Cons vs show ?thesis by simp
  qed
qed

text \<open>
  Claim C9, as stated, fails on the code. The loop of \<^verbatim>\<open>invoke\<close> finds a model through its
  identifier, and \<^verbatim>\<open>!selectedModelId\<close> reads an empty identifier as no selection at all.
  \<^item> In the first directory the only descriptor with \<^verbatim>\<open>isDefault\<close> has the identifier
    \<^verbatim>\<open>''\<close>: the loop selects it, the guard \<^verbatim>\<open>!selectedModelId\<close> then falls back to
    \<^verbatim>\<open>models[0]\<close>, and \<^verbatim>\<open>a1\<close>, which is not a default, is chosen.
  \<^item> In the second directory two descriptors share the identifier \<^verbatim>\<open>x\<close> and the second is
    the default: \<^verbatim>\<open>lookupLanguageModel\<close> resolves \<^verbatim>\<open>x\<close> to the first one both times, the loop
    finds no default, and the first descriptor is chosen.
\<close>

theorem select_model_identifier_counterexample:
  "selectDefault
     [(''A'', [\<lparr>identifier = ''a1'', metadata = \<lparr>md_name = ''A1'', md_vendor = ''A'',
                   isDefault = False, isUserSelectable = True\<rparr>\<rparr>]),
      (''B'', [\<lparr>identifier = [], metadata = \<lparr>md_name = ''B1'', md_vendor = ''B'',
                   isDefault = True, isUserSelectable = True\<rparr>\<rparr>])]
     = Some \<lparr>identifier = [], metadata = \<lparr>md_name = ''B1'', md_vendor = ''B'',
                   isDefault = True, isUserSelectable = True\<rparr>\<rparr>
   \<and> select_model
     [(''A'', [\<lparr>identifier = ''a1'', metadata = \<lparr>md_name = ''A1'', md_vendor = ''A'',
                   isDefault = False, isUserSelectable = True\<rparr>\<rparr>]),
      (''B'', [\<lparr>identifier = [], metadata = \<lparr>md_name = ''B1'', md_vendor = ''B'',
                   isDefault = True, isUserSelectable = True\<rparr>\<rparr>])]
     = Selected ''a1'' \<lparr>md_name = ''A1'', md_vendor = ''A'',
                   isDefault = False, isUserSelectable = True\<rparr>
   \<and> selectDefault
     [(''A'', [\<lparr>identifier = ''x'', metadata = \<lparr>md_name = ''A1'', md_vendor = ''A'',
                   isDefault = False, isUserSelectable = True\<rparr>\<rparr>]),
      (''B'', [\<lparr>identifier = ''x'', metadata = \<lparr>md_name = ''B1'', md_vendor = ''B'',
                   isDefault = True, isUserSelectable = True\<rparr>\<rparr>])]
     = Some \<lparr>identifier = ''x'', metadata = \<lparr>md_name = ''B1'', md_vendor = ''B'',
                   isDefault = True, isUserSelectable = True\<rparr>\<rparr>
   \<and> select_model
     [(''A'', [\<lparr>identifier = ''x'', metadata = \<lparr>md_name = ''A1'', md_vendor = ''A'',
                   isDefault = False, isUserSelectable = True\<rparr>\<rparr>]),
      (''B'', [\<lparr>identifier = ''x'', metadata = \<lparr>md_name = ''B1'', md_vendor = ''B'',
                   isDefault = True, isUserSelectable = True\<rparr>\<rparr>])]
     = Selected ''x'' \<lparr>md_name = ''A1'', md_vendor = ''A'',
                   isDefault = False, isUserSelectable = True\<rparr>"
  by (simp add: select_model_def selectDefault_def getLanguageModelIds_def
      lookupLanguageModel_def descriptors_def falsy_def Let_def)

text \<open>
  Claim C9, amended. For every directory whose identifiers are pairwise different and
  not empty, the selection of \<^verbatim>\<open>invoke\<close> is the spec's \<^verbatim>\<open>selectDefault()\<close>: the first
  descriptor with \<^verbatim>\<open>isDefault\<close> in registration order; if there is none, the first descriptor
  of the first snapshot that is not empty; if every snapshot is empty, the error
  \<^verbatim>\<open>No language models available\<close>.
\<close>

theorem select_model_refines_selectDefault:
  assumes "distinct (getLanguageModelIds dir)" and "[] \<notin> set (getLanguageModelIds dir)"
  shows "select_model dir =
     (case selectDefault dir of
        None \<Rightarrow> ErrorDetails ''No language models available''
      | Some d \<Rightarrow> Selected (identifier d) (metadata d))"
proof (cases "descriptors dir")
  case Nil
  then have dw: "dropWhile (\<lambda>(vendor, snapshot). snapshot = []) dir = []"
    by (rule no_nonempty_snapshot)
  show ?thesis
    by (simp add: select_model_def selectDefault_def getLanguageModelIds_def Nil dw)
next
  case (Cons d0 ds)
  have ids: "getLanguageModelIds dir = identifier d0 # map identifier ds"
    by (simp add: getLanguageModelIds_def Cons)
  have scan: "find_default dir (getLanguageModelIds dir) =
     map_option (\<lambda>d. (identifier d, metadata d))
       (find (\<lambda>d. isDefault (metadata d)) (descriptors dir))"
    using find_default_scan [OF assms(1), of "descriptors dir"]
    by (simp add: getLanguageModelIds_def)
  show ?thesis
  proof (cases "find (\<lambda>d. isDefault (metadata d)) (descriptors dir)")
    case (Some d)
    then have "d \<in> set (descriptors dir)"
      by (auto simp: find_Some_iff)
    then have "identifier d \<in> set (getLanguageModelIds dir)"
      by (simp add: getLanguageModelIds_def)
    then have "identifier d \<noteq> []"
      using assms(2) by metis
    with Some scan ids show ?thesis
      by (simp add: select_model_def selectDefault_def Let_def falsy_def)
  next
    case None
    obtain vendor snapshot rest where dw:
      "dropWhile (\<lambda>(vendor, snapshot). snapshot = []) dir = (vendor, d0 # snapshot) # rest"
      using first_nonempty_snapshot [OF Cons] by blast
    have l0: "lookupLanguageModel dir (identifier d0) = Some (metadata d0)"
      by (rule lookup_descriptor [OF assms(1)]) (simp add: Cons)
    have n0: "identifier d0 \<noteq> []"
      using assms(2) ids by auto
    from None scan ids l0 n0 show ?thesis
      by (simp add: select_model_def selectDefault_def Let_def falsy_def dw)
  qed
qed

theorem select_model_refines_selectDefault_witness:
  "distinct (getLanguageModelIds
     [(''A'', [\<lparr>identifier = ''a1'', metadata = \<lparr>md_name = ''A1'', md_vendor = ''A'',
                   isDefault = False, isUserSelectable = True\<rparr>\<rparr>]),
      (''B'', [\<lparr>identifier = ''b1'', metadata = \<lparr>md_name = ''B1'', md_vendor = ''B'',
                   isDefault = True, isUserSelectable = True\<rparr>\<rparr>])])
   \<and> [] \<notin> set (getLanguageModelIds
     [(''A'', [\<lparr>identifier = ''a1'', metadata = \<lparr>md_name = ''A1'', md_vendor = ''A'',
                   isDefault = False, isUserSelectable = True\<rparr>\<rparr>]),
      (''B'', [\<lparr>identifier = ''b1'', metadata = \<lparr>md_name = ''B1'', md_vendor = ''B'',
                   isDefault = True, isUserSelectable = True\<rparr>\<rparr>])])
   \<and> select_model
     [(''A'', [\<lparr>identifier = ''a1'', metadata = \<lparr>md_name = ''A1'', md_vendor = ''A'',
                   isDefault = False, isUserSelectable = True\<rparr>\<rparr>]),
      (''B'', [\<lparr>identifier = ''b1'', metadata = \<lparr>md_name = ''B1'', md_vendor = ''B'',
                   isDefault = True, isUserSelectable = True\<rparr>\<rparr>])]
     = Selected ''b1'' \<lparr>md_name = ''B1'', md_vendor = ''B'',
                   isDefault = True, isUserSelectable = True\<rparr>
   \<and> distinct (getLanguageModelIds
     [(''E'', []),
      (''A'', [\<lparr>identifier = ''a1'', metadata = \<lparr>md_name = ''A1'', md_vendor = ''A'',
                   isDefault = False, isUserSelectable = True\<rparr>\<rparr>]),
      (''B'', [\<lparr>identifier = ''b1'', metadata = \<lparr>md_name = ''B1'', md_vendor = ''B'',
                   isDefault = False, isUserSelectable = True\<rparr>\<rparr>])])
   \<and> [] \<notin> set (getLanguageModelIds
     [(''E'', []),
      (''A'', [\<lparr>identifier = ''a1'', metadata = \<lparr>md_name = ''A1'', md_vendor = ''A'',
                   isDefault = False, isUserSelectable = True\<rparr>\<rparr>]),
      (''B'', [\<lparr>identifier = ''b1'', metadata = \<lparr>md_name = ''B1'', md_vendor = ''B'',
                   isDefault = False, isUserSelectable = True\<rparr>\<rparr>])])
   \<and> select_model
     [(''E'', []),
      (''A'', [\<lparr>identifier = ''a1'', metadata = \<lparr>md_name = ''A1'', md_vendor = ''A'',
                   isDefault = False, isUserSelectable = True\<rparr>\<rparr>]),
      (''B'', [\<lparr>identifier = ''b1'', metadata = \<lparr>md_name = ''B1'', md_vendor = ''B'',
                   isDefault = False, isUserSelectable = True\<rparr>\<rparr>])]
     = Selected ''a1'' \<lparr>md_name = ''A1'', md_vendor = ''A'',
                   isDefault = False, isUserSelectable = True\<rparr>
   \<and> distinct (getLanguageModelIds [(''A'', []), (''B'', [])])
   \<and> [] \<notin> set (getLanguageModelIds [(''A'', []), (''B'', [])])
   \<and> select_model [(''A'', []), (''B'', [])] = ErrorDetails ''No language models available''"
proof -
  let ?a = "\<lparr>identifier = ''a1'', metadata = \<lparr>md_name = ''A1'', md_vendor = ''A'',
                   isDefault = False, isUserSelectable = True\<rparr>\<rparr>"
  let ?b = "\<lambda>dflt. \<lparr>identifier = ''b1'', metadata = \<lparr>md_name = ''B1'', md_vendor = ''B'',
                   isDefault = dflt, isUserSelectable = True\<rparr>\<rparr>"
  let ?d1 = "[(''A'', [?a]), (''B'', [?b True])]"
  let ?d2 = "[(''E'', []), (''A'', [?a]), (''B'', [?b False])]"
  let ?d3 = "[(''A'', []), (''B'', [])] :: directory"
  have h1: "distinct (getLanguageModelIds ?d1)" "[] \<notin> set (getLanguageModelIds ?d1)"
    by (simp_all add: getLanguageModelIds_def descriptors_def)
  have h2: "distinct (getLanguageModelIds ?d2)" "[] \<notin> set (getLanguageModelIds ?d2)"
    by (simp_all add: getLanguageModelIds_def descriptors_def)
  have h3: "distinct (getLanguageModelIds ?d3)" "[] \<notin> set (getLanguageModelIds ?d3)"
    by (simp_all add: getLanguageModelIds_def descriptors_def)
  show ?thesis
    using h1 h2 h3
      select_model_refines_selectDefault [OF h1]
      select_model_refines_selectDefault [OF h2]
      select_model_refines_selectDefault [OF h3]
    by (simp add: selectDefault_def descriptors_def)
qed

section \<open>The Ollama model identifier\<close>

lemma replace_all_char:
  "replace_all [c] rep s = concat (map (\<lambda>x. if x = c then rep else [x]) s)"
  by (induction s) auto

lemma encode_tokens:
  "replace_all '':'' ''_colon_'' (replace_all ''.'' ''_dot_'' s) = concat (map token s)"
  by (induction s) (auto simp: replace_all_char token_def)

lemma token_simps:
  "token (CHR ''.'') = ''_dot_''"
  "token (CHR '':'') = ''_colon_''"
  "c \<noteq> CHR ''.'' \<Longrightarrow> c \<noteq> CHR '':'' \<Longrightarrow> token c = [c]"
  by (simp_all add: token_def)

lemma colon_token_simps:
  "colon_token (CHR '':'') = ''_colon_''"
  "c \<noteq> CHR '':'' \<Longrightarrow> colon_token c = [c]"
  by (simp_all add: colon_token_def)

lemma strip_ollama_prefix: "replace_first ''ollama-'' [] (''ollama-'' @ s) = s"
  by simp

lemma delimited_Cons: "delimited w s \<Longrightarrow> delimited w (c # s)"
  by (auto simp: delimited_def sublist_Cons_right)

lemma delimited_prefix:
  assumes "delimiter a" and "delimiter b" and "prefix (a # w @ [b]) s"
  shows "delimited w s"
proof -
  have "a \<in> set ''_.:''" "b \<in> set ''_.:''"
    using assms(1,2) by (auto simp: delimiter_def)
  moreover have "sublist (a # w @ [b]) s"
    using assms(3) by (rule prefix_imp_sublist)
  ultimately show ?thesis
    unfolding delimited_def by blast
qed

text \<open>A word without delimiters, followed by an underscore, at the head of an encoded
  text: the word followed by a delimiter is at the head of the text itself.\<close>

lemma word_at_head_of_tokens:
  assumes "\<forall>x \<in> set w. \<not> delimiter x" and "prefix (w @ ''_'') (concat (map token s))"
  shows "\<exists>b. delimiter b \<and> prefix (w @ [b]) s"
  using assms
proof (induction w arbitrary: s)
  case Nil
  then show ?case
    by (cases s) (auto simp: token_def delimiter_def split: if_splits)
next
  case (Cons x w)
  then obtain c r where s: "s = c # r"
    by (cases s) auto
  from Cons.prems s have c: "\<not> delimiter c" and x: "x = c"
    by (cases "c = CHR ''.''"; cases "c = CHR '':''"; auto simp: token_simps delimiter_def)+
  with Cons.prems s have "prefix (w @ ''_'') (concat (map token r))"
    by (simp add: token_simps delimiter_def)
  with Cons.IH [of r] Cons.prems(1) obtain b where "delimiter b" "prefix (w @ [b]) r"
    by auto
  with s x show ?case by auto
qed

lemma word_at_head_of_colon_tokens:
  assumes "\<forall>x \<in> set w. \<not> delimiter x" and "prefix (w @ ''_'') (concat (map colon_token s))"
  shows "\<exists>b. delimiter b \<and> prefix (w @ [b]) s"
  using assms
proof (induction w arbitrary: s)
  case Nil
  then show ?case
    by (cases s) (auto simp: colon_token_def delimiter_def split: if_splits)
next
  case (Cons x w)
  then obtain c r where s: "s = c # r"
    by (cases s) auto
  from Cons.prems s have c: "\<not> delimiter c" and x: "x = c"
    by (cases "c = CHR '':''"; auto simp: colon_token_simps delimiter_def)+
  with Cons.prems s have "prefix (w @ ''_'') (concat (map colon_token r))"
    by (simp add: colon_token_simps delimiter_def)
  with Cons.IH [of r] Cons.prems(1) obtain b where "delimiter b" "prefix (w @ [b]) r"
    by auto
  with s x show ?case by auto
qed

lemma no_dot_after_delimiter:
  assumes "\<not> delimited ''dot'' (a # s)" and "delimiter a"
  shows "\<not> prefix ''dot_'' (concat (map token s))"
proof
  assume "prefix ''dot_'' (concat (map token s))"
  then have "prefix (''dot'' @ ''_'') (concat (map token s))" by simp
  then obtain b where "delimiter b" "prefix (''dot'' @ [b]) s"
    using word_at_head_of_tokens [of "''dot''" s] by (auto simp: delimiter_def)
  then have "delimited ''dot'' (a # s)"
    using assms(2) by (intro delimited_prefix [of a b]) auto
  with assms(1) show False by simp
qed

lemma no_colon_after_delimiter:
  assumes "\<not> delimited ''colon'' (a # s)" and "delimiter a"
  shows "\<not> prefix ''colon_'' (concat (map colon_token s))"
proof
  assume "prefix ''colon_'' (concat (map colon_token s))"
  then have "prefix (''colon'' @ ''_'') (concat (map colon_token s))" by simp
  then obtain b where "delimiter b" "prefix (''colon'' @ [b]) s"
    using word_at_head_of_colon_tokens [of "''colon''" s] by (auto simp: delimiter_def)
  then have "delimited ''colon'' (a # s)"
    using assms(2) by (intro delimited_prefix [of a b]) auto
  with assms(1) show False by simp
qed

lemma decode_dot:
  assumes "\<not> delimited ''dot'' s"
  shows "replace_all ''_dot_'' ''.'' (concat (map token s)) = concat (map colon_token s)"
  using assms
proof (induction s)
  case Nil
  show ?case by simp
next
  case (Cons c s)
  from Cons.prems have tl: "\<not> delimited ''dot'' s"
    using delimited_Cons by blast
  note IH = Cons.IH [OF tl]
  consider "c = CHR ''.''" | "c = CHR '':''" | "c = CHR ''_''" | "\<not> delimiter c"
    by (auto simp: delimiter_def)
  then show ?case
  proof cases
    case 1
    then show ?thesis by (simp add: token_simps colon_token_simps IH)
  next
    case 2
    then have "\<not> prefix ''dot_'' (concat (map token s))"
      using no_dot_after_delimiter [OF Cons.prems] by (simp add: delimiter_def)
    with 2 show ?thesis by (simp add: token_simps colon_token_simps IH)
  next
    case 3
    then have "\<not> prefix ''dot_'' (concat (map token s))"
      using no_dot_after_delimiter [OF Cons.prems] by (simp add: delimiter_def)
    with 3 show ?thesis by (simp add: token_simps colon_token_simps IH)
  next
    case 4
    then show ?thesis by (auto simp add: token_simps colon_token_simps delimiter_def IH)
  qed
qed

lemma decode_colon:
  assumes "\<not> delimited ''colon'' s"
  shows "replace_all ''_colon_'' '':'' (concat (map colon_token s)) = s"
  using assms
proof (induction s)
  case Nil
  show ?case by simp
next
  case (Cons c s)
  from Cons.prems have tl: "\<not> delimited ''colon'' s"
    using delimited_Cons by blast
  note IH = Cons.IH [OF tl]
  consider "c = CHR '':''" | "c = CHR ''_''" | "c \<noteq> CHR '':'' \<and> c \<noteq> CHR ''_''"
    by auto
  then show ?case
  proof cases
    case 1
    then show ?thesis by (simp add: colon_token_simps IH)
  next
    case 2
    then have "\<not> prefix ''colon_'' (concat (map colon_token s))"
      using no_colon_after_delimiter [OF Cons.prems] by (simp add: delimiter_def)
    with 2 show ?thesis by (simp add: colon_token_simps IH)
  next
    case 3
    then show ?thesis by (auto simp add: colon_token_simps IH)
  qed
qed

text \<open>
  Claim C10 as stated does not hold: the model name \<^verbatim>\<open>polka_dot:latest\<close> contains neither
  \<^verbatim>\<open>_dot_\<close> nor \<^verbatim>\<open>_colon_\<close>, its identifier is \<^verbatim>\<open>ollama-polka_dot_colon_latest\<close>, and
  decoding finds \<^verbatim>\<open>_dot_\<close> there, made of the end of the name's \<^verbatim>\<open>_dot\<close> and the first
  character of the encoded colon: the model requested is \<^verbatim>\<open>polka.colon_latest\<close>.
\<close>

theorem ollama_round_trip_counterexample:
  "\<not> sublist ''_dot_'' ''polka_dot:latest'' \<and> \<not> sublist ''_colon_'' ''polka_dot:latest''
   \<and> ollama_modelId ''polka_dot:latest'' = ''ollama-polka_dot_colon_latest''
   \<and> ollama_model (ollama_modelId ''polka_dot:latest'') = ''polka.colon_latest''
   \<and> ollama_model (ollama_modelId ''polka_dot:latest'') \<noteq> ''polka_dot:latest''"
  by (simp add: ollama_modelId_def ollama_model_def sublist_Cons_right)

text \<open>
  Claim C10, amended. For a model name in which no occurrence of \<^verbatim>\<open>dot\<close> or of \<^verbatim>\<open>colon\<close>
  has one of the characters \<^verbatim>\<open>_\<close>, \<^verbatim>\<open>.\<close>, \<^verbatim>\<open>:\<close> right before it and one of them right after
  it, decoding the identifier that encodes the name gives the name back.
\<close>

theorem ollama_round_trip:
  assumes "\<not> delimited ''dot'' modelName" and "\<not> delimited ''colon'' modelName"
  shows "ollama_model (ollama_modelId modelName) = modelName"
  by (simp only: ollama_model_def ollama_modelId_def Let_def strip_ollama_prefix
      encode_tokens decode_dot [OF assms(1)] decode_colon [OF assms(2)])

theorem ollama_round_trip_witness:
  "\<not> delimited ''dot'' ''qwen2.5-coder:7b'' \<and> \<not> delimited ''colon'' ''qwen2.5-coder:7b''
   \<and> ollama_modelId ''qwen2.5-coder:7b'' = ''ollama-qwen2_dot_5-coder_colon_7b''
   \<and> ollama_model (ollama_modelId ''qwen2.5-coder:7b'') = ''qwen2.5-coder:7b''"
proof -
  have a: "\<not> delimited ''dot'' ''qwen2.5-coder:7b''"
    by (simp add: delimited_def sublist_Cons_right)
  have b: "\<not> delimited ''colon'' ''qwen2.5-coder:7b''"
    by (simp add: delimited_def sublist_Cons_right)
  have c: "ollama_modelId ''qwen2.5-coder:7b'' = ''ollama-qwen2_dot_5-coder_colon_7b''"
    by (simp add: ollama_modelId_def)
  show ?thesis
    using a b c ollama_round_trip [OF a b] by simp
qed


end
